theory Spec2Isabelle
  imports Complex_Main
begin

section \<open>Multi-chain explorer: data-source resolution, detection and aggregation\<close>

text \<open>
  A shallow embedding of \<^verbatim>\<open>src/utils/chainDetector.ts\<close>, of the endpoint table and probe
  of \<^verbatim>\<open>config/rpc.ts\<close> and of the read operations of \<^verbatim>\<open>src/services/api.ts\<close>.

  Conventions.
  \<^item> A JavaScript string is a \<open>string\<close>: a list of code units below 256.
  \<^item> A thrown exception is the \<open>Inl\<close> summand of a result.
  \<^item> The network is a parameter: every outbound call is answered by an oracle, and the
    calls an operation issues are recorded in a trace.
  \<^item> The list \<^verbatim>\<open>SUPPORTED_CHAINS\<close> of \<^verbatim>\<open>types/chain.ts\<close> is a parameter.
\<close>

subsection \<open>Chain descriptors\<close>

text \<open>The fields of \<^verbatim>\<open>Chain\<close> that the modelled code reads: \<^verbatim>\<open>id\<close>, \<^verbatim>\<open>symbol\<close> and the
  optional \<^verbatim>\<open>apiUrl\<close>.\<close>

record Chain =
  chain_id :: string
  symbol :: string
  apiUrl :: "string option"

subsection \<open>Character classes and the regular expressions of the detector\<close>

definition in_range :: "char \<Rightarrow> char \<Rightarrow> char \<Rightarrow> bool" where
  "in_range lo hi c \<longleftrightarrow> (of_char lo :: nat) \<le> of_char c \<and> (of_char c :: nat) \<le> of_char hi"

text \<open>\<^verbatim>\<open>[a-fA-F0-9]\<close>\<close>
definition is_hex :: "char \<Rightarrow> bool" where
  "is_hex c \<longleftrightarrow> in_range CHR ''a'' CHR ''f'' c \<or> in_range CHR ''A'' CHR ''F'' c
     \<or> in_range CHR ''0'' CHR ''9'' c"

text \<open>\<^verbatim>\<open>[a-km-zA-HJ-NP-Z1-9]\<close>, the same set as \<^verbatim>\<open>[1-9A-HJ-NP-Za-km-z]\<close>\<close>
definition is_base58 :: "char \<Rightarrow> bool" where
  "is_base58 c \<longleftrightarrow> in_range CHR ''a'' CHR ''k'' c \<or> in_range CHR ''m'' CHR ''z'' c
     \<or> in_range CHR ''A'' CHR ''H'' c \<or> in_range CHR ''J'' CHR ''N'' c
     \<or> in_range CHR ''P'' CHR ''Z'' c \<or> in_range CHR ''1'' CHR ''9'' c"

text \<open>\<^verbatim>\<open>[a-z0-9]\<close>\<close>
definition is_lower_alnum :: "char \<Rightarrow> bool" where
  "is_lower_alnum c \<longleftrightarrow> in_range CHR ''a'' CHR ''z'' c \<or> in_range CHR ''0'' CHR ''9'' c"

text \<open>\<^verbatim>\<open>[A-Za-z1-9]\<close>\<close>
definition is_tron_char :: "char \<Rightarrow> bool" where
  "is_tron_char c \<longleftrightarrow> in_range CHR ''A'' CHR ''Z'' c \<or> in_range CHR ''a'' CHR ''z'' c
     \<or> in_range CHR ''1'' CHR ''9'' c"

text \<open>\<^verbatim>\<open>[a-z0-9_-]\<close>\<close>
definition is_near_char :: "char \<Rightarrow> bool" where
  "is_near_char c \<longleftrightarrow> in_range CHR ''a'' CHR ''z'' c \<or> in_range CHR ''0'' CHR ''9'' c
     \<or> c = CHR ''_'' \<or> c = CHR ''-''"

text \<open>\<^verbatim>\<open>\d\<close>\<close>
definition is_digit :: "char \<Rightarrow> bool" where
  "is_digit c \<longleftrightarrow> in_range CHR ''0'' CHR ''9'' c"

text \<open>White space as \<^verbatim>\<open>String.prototype.trim\<close> sees it, among the code units below 256:
  tab, line feed, vertical tab, form feed, carriage return, space, no-break space.\<close>
definition is_space :: "char \<Rightarrow> bool" where
  "is_space c \<longleftrightarrow> (of_char c :: nat) \<in> {9, 10, 11, 12, 13, 32, 160}"

definition trim :: "string \<Rightarrow> string" where
  "trim s = rev (dropWhile is_space (rev (dropWhile is_space s)))"

definition startsWith :: "string \<Rightarrow> string \<Rightarrow> bool" where
  "startsWith s p \<longleftrightarrow> take (length p) s = p"

definition endsWith :: "string \<Rightarrow> string \<Rightarrow> bool" where
  "endsWith s p \<longleftrightarrow> length p \<le> length s \<and> drop (length s - length p) s = p"

text \<open>\<^verbatim>\<open>cls{lo,hi}\<close> anchored on both sides.\<close>
definition rep_between :: "(char \<Rightarrow> bool) \<Rightarrow> nat \<Rightarrow> nat \<Rightarrow> string \<Rightarrow> bool" where
  "rep_between cls lo hi s \<longleftrightarrow> lo \<le> length s \<and> length s \<le> hi \<and> list_all cls s"

text \<open>\<^verbatim>\<open>/^[13][a-km-zA-HJ-NP-Z1-9]{25,34}$/\<close>\<close>
definition re_btc_legacy :: "string \<Rightarrow> bool" where
  "re_btc_legacy s = (case s of [] \<Rightarrow> False
     | c # cs \<Rightarrow> (c = CHR ''1'' \<or> c = CHR ''3'') \<and> rep_between is_base58 25 34 cs)"

text \<open>\<^verbatim>\<open>/^bc1[a-z0-9]{39,59}$/\<close>\<close>
definition re_btc_bech32 :: "string \<Rightarrow> bool" where
  "re_btc_bech32 s \<longleftrightarrow> startsWith s ''bc1'' \<and> rep_between is_lower_alnum 39 59 (drop 3 s)"

text \<open>\<^verbatim>\<open>/^[a-fA-F0-9]{64}$/\<close>\<close>
definition re_hex64 :: "string \<Rightarrow> bool" where
  "re_hex64 s \<longleftrightarrow> rep_between is_hex 64 64 s"

text \<open>\<^verbatim>\<open>/^0x[a-fA-F0-9]{40}$/\<close>\<close>
definition re_evm_address :: "string \<Rightarrow> bool" where
  "re_evm_address s \<longleftrightarrow> startsWith s ''0x'' \<and> rep_between is_hex 40 40 (drop 2 s)"

text \<open>\<^verbatim>\<open>/^0x[a-fA-F0-9]{64}$/\<close>\<close>
definition re_evm_hash :: "string \<Rightarrow> bool" where
  "re_evm_hash s \<longleftrightarrow> startsWith s ''0x'' \<and> rep_between is_hex 64 64 (drop 2 s)"

text \<open>\<^verbatim>\<open>/^[1-9A-HJ-NP-Za-km-z]{32,44}$/\<close>\<close>
definition re_solana :: "string \<Rightarrow> bool" where
  "re_solana s \<longleftrightarrow> rep_between is_base58 32 44 s"

text \<open>\<^verbatim>\<open>/^[13]/\<close>\<close>
definition re_starts_13 :: "string \<Rightarrow> bool" where
  "re_starts_13 s = (case s of [] \<Rightarrow> False | c # cs \<Rightarrow> c = CHR ''1'' \<or> c = CHR ''3'')"

text \<open>\<^verbatim>\<open>/^T[A-Za-z1-9]{33}$/\<close>\<close>
definition re_tron :: "string \<Rightarrow> bool" where
  "re_tron s \<longleftrightarrow> startsWith s ''T'' \<and> rep_between is_tron_char 33 33 (drop 1 s)"

text \<open>\<^verbatim>\<open>/^cosmos1[a-z0-9]{38}$/\<close>\<close>
definition re_cosmos :: "string \<Rightarrow> bool" where
  "re_cosmos s \<longleftrightarrow> startsWith s ''cosmos1'' \<and> rep_between is_lower_alnum 38 38 (drop 7 s)"

text \<open>\<^verbatim>\<open>/^[a-z0-9_-]+$/\<close>\<close>
definition re_near :: "string \<Rightarrow> bool" where
  "re_near s \<longleftrightarrow> s \<noteq> [] \<and> list_all is_near_char s"

text \<open>\<^verbatim>\<open>/^0x[a-fA-F0-9]{1,64}$/\<close>\<close>
definition re_hex_1_64 :: "string \<Rightarrow> bool" where
  "re_hex_1_64 s \<longleftrightarrow> startsWith s ''0x'' \<and> rep_between is_hex 1 64 (drop 2 s)"

text \<open>\<^verbatim>\<open>/^\d+$/\<close>\<close>
definition re_digits :: "string \<Rightarrow> bool" where
  "re_digits s \<longleftrightarrow> s \<noteq> [] \<and> list_all is_digit s"

subsection \<open>The chain detector\<close>

text \<open>The \<^verbatim>\<open>reason\<close> strings of the source, one constructor per literal.\<close>

datatype reason =
    BitcoinAddressFormat | BitcoinTxHashFormat | EvmAddressFormat | EvmTxHashFormat
  | SolanaAddressFormat | TronAddressFormat | CosmosAddressFormat | PossibleNearAddress
  | PossibleAptosAddress | PossibleSuiAddress | BlockNumber | UnknownFormat

text \<open>The field \<^verbatim>\<open>chain\<close> is \<open>mchain\<close> here (\<open>chain\<close> is a constant of the library).\<close>

record ChainMatch =
  mchain :: Chain
  confidence :: real
  reason :: reason

text \<open>The filter of the two EVM branches: every chain whose id is none of the seven
  non-EVM ids.\<close>
definition is_evm_chain :: "Chain \<Rightarrow> bool" where
  "is_evm_chain c \<longleftrightarrow> chain_id c \<noteq> ''bitcoin'' \<and> chain_id c \<noteq> ''solana''
     \<and> chain_id c \<noteq> ''cosmos'' \<and> chain_id c \<noteq> ''near'' \<and> chain_id c \<noteq> ''tron''
     \<and> chain_id c \<noteq> ''aptos'' \<and> chain_id c \<noteq> ''sui''"

text \<open>\<^verbatim>\<open>const chain = SUPPORTED_CHAINS.find(c => c.id === i); if (chain) matches.push(...)\<close>\<close>
definition push_found :: "Chain list \<Rightarrow> string \<Rightarrow> real \<Rightarrow> reason \<Rightarrow> ChainMatch list" where
  "push_found cs i conf r =
     (case find (\<lambda>c. chain_id c = i) cs of
        None \<Rightarrow> []
      | Some c \<Rightarrow> [\<lparr>mchain = c, confidence = conf, reason = r\<rparr>])"

text \<open>\<^verbatim>\<open>cs.forEach(chain => matches.push({chain, confidence, reason}))\<close>\<close>
definition push_all :: "Chain list \<Rightarrow> real \<Rightarrow> reason \<Rightarrow> ChainMatch list" where
  "push_all cs conf r = map (\<lambda>c. \<lparr>mchain = c, confidence = conf, reason = r\<rparr>) cs"

text \<open>\<^verbatim>\<open>matches.sort((a, b) => b.confidence - a.confidence)\<close>: a stable sort, highest
  confidence first.\<close>
definition sort_matches :: "ChainMatch list \<Rightarrow> ChainMatch list" where
  "sort_matches ms = sort_key (\<lambda>m. - confidence m) ms"

definition detectChains :: "Chain list \<Rightarrow> string \<Rightarrow> ChainMatch list" where
  "detectChains SUPPORTED_CHAINS query =
    (let trimmedQuery = trim query;
         m1 = (if re_btc_legacy trimmedQuery \<or> re_btc_bech32 trimmedQuery
               then push_found SUPPORTED_CHAINS ''bitcoin'' 0.95 BitcoinAddressFormat else []);
         m2 = (if re_hex64 trimmedQuery \<and> \<not> startsWith trimmedQuery ''0x''
               then push_found SUPPORTED_CHAINS ''bitcoin'' 0.9 BitcoinTxHashFormat else []);
         m3 = (if re_evm_address trimmedQuery
               then push_all (filter is_evm_chain SUPPORTED_CHAINS) 0.7 EvmAddressFormat else []);
         m4 = (if re_evm_hash trimmedQuery
               then push_all (filter is_evm_chain SUPPORTED_CHAINS) 0.7 EvmTxHashFormat else []);
         m5 = (if re_solana trimmedQuery \<and> \<not> startsWith trimmedQuery ''0x''
                  \<and> \<not> re_starts_13 trimmedQuery \<and> \<not> startsWith trimmedQuery ''bc1''
               then push_found SUPPORTED_CHAINS ''solana'' 0.8 SolanaAddressFormat else []);
         m6 = (if re_tron trimmedQuery
               then push_found SUPPORTED_CHAINS ''tron'' 0.95 TronAddressFormat else []);
         m7 = (if re_cosmos trimmedQuery
               then push_found SUPPORTED_CHAINS ''cosmos'' 0.95 CosmosAddressFormat else []);
         m8 = (if (endsWith trimmedQuery ''.near'' \<or> re_near trimmedQuery)
                  \<and> length trimmedQuery < 64
               then push_found SUPPORTED_CHAINS ''near'' 0.7 PossibleNearAddress else []);
         m9 = (if re_hex_1_64 trimmedQuery \<and> length trimmedQuery < 66
               then push_found SUPPORTED_CHAINS ''aptos'' 0.6 PossibleAptosAddress else []);
         m10 = (if re_hex_1_64 trimmedQuery \<and> length trimmedQuery < 66
               then push_found SUPPORTED_CHAINS ''sui'' 0.6 PossibleSuiAddress else []);
         m11 = (if re_digits trimmedQuery
               then push_all SUPPORTED_CHAINS 0.3 BlockNumber else []);
         matches = m1 @ m2 @ m3 @ m4 @ m5 @ m6 @ m7 @ m8 @ m9 @ m10 @ m11;
         matches' = (if length matches = 0
                     then matches @ push_all SUPPORTED_CHAINS 0.1 UnknownFormat else matches)
     in sort_matches matches')"

subsection \<open>Sample configuration\<close>

text \<open>A small \<^verbatim>\<open>SUPPORTED_CHAINS\<close> used for concrete evaluations.\<close>

definition example_chains :: "Chain list" where
  "example_chains =
    [\<lparr>chain_id = ''ethereum'', symbol = ''ETH'', apiUrl = Some ''https://api.etherscan.io/api''\<rparr>,
     \<lparr>chain_id = ''bitcoin'', symbol = ''BTC'', apiUrl = None\<rparr>,
     \<lparr>chain_id = ''polygon'', symbol = ''MATIC'', apiUrl = Some ''https://api.polygonscan.com/api''\<rparr>,
     \<lparr>chain_id = ''solana'', symbol = ''SOL'', apiUrl = None\<rparr>,
     \<lparr>chain_id = ''tron'', symbol = ''TRX'', apiUrl = None\<rparr>,
     \<lparr>chain_id = ''near'', symbol = ''NEAR'', apiUrl = None\<rparr>]"

text \<open>Two more lists: one with an EVM chain, NEAR and Aptos, and one with Bitcoin alone.\<close>

definition evm_near_aptos_chains :: "Chain list" where
  "evm_near_aptos_chains =
    [\<lparr>chain_id = ''ethereum'', symbol = ''ETH'', apiUrl = Some ''https://api.etherscan.io/api''\<rparr>,
     \<lparr>chain_id = ''bitcoin'', symbol = ''BTC'', apiUrl = None\<rparr>,
     \<lparr>chain_id = ''near'', symbol = ''NEAR'', apiUrl = None\<rparr>,
     \<lparr>chain_id = ''aptos'', symbol = ''APT'', apiUrl = None\<rparr>]"

definition bitcoin_only_chains :: "Chain list" where
  "bitcoin_only_chains = [\<lparr>chain_id = ''bitcoin'', symbol = ''BTC'', apiUrl = None\<rparr>]"

subsection \<open>JavaScript numbers\<close>

text \<open>
  A JavaScript number is a finite value, an infinity or \<^verbatim>\<open>NaN\<close>. Finite values are
  real numbers here: rounding, overflow to an infinity and the sign of zero are not modelled
  (every zero is \<^verbatim>\<open>+0\<close>).
\<close>

datatype jsnum = Num real | PosInf | NegInf | NaN

fun js_neg :: "jsnum \<Rightarrow> jsnum" where
  "js_neg (Num a) = Num (- a)"
| "js_neg PosInf = NegInf"
| "js_neg NegInf = PosInf"
| "js_neg NaN = NaN"

fun js_add :: "jsnum \<Rightarrow> jsnum \<Rightarrow> jsnum" where
  "js_add (Num a) (Num b) = Num (a + b)"
| "js_add NaN _ = NaN"
| "js_add _ NaN = NaN"
| "js_add PosInf NegInf = NaN"
| "js_add NegInf PosInf = NaN"
| "js_add PosInf _ = PosInf"
| "js_add _ PosInf = PosInf"
| "js_add NegInf _ = NegInf"
| "js_add _ NegInf = NegInf"

definition js_sub :: "jsnum \<Rightarrow> jsnum \<Rightarrow> jsnum" where
  "js_sub a b = js_add a (js_neg b)"

text \<open>The sign rule shared by multiplication and division with an infinity.\<close>
definition inf_signed :: "bool \<Rightarrow> jsnum" where
  "inf_signed positive = (if positive then PosInf else NegInf)"

fun js_mul :: "jsnum \<Rightarrow> jsnum \<Rightarrow> jsnum" where
  "js_mul (Num a) (Num b) = Num (a * b)"
| "js_mul NaN _ = NaN"
| "js_mul _ NaN = NaN"
| "js_mul (Num a) PosInf = (if a = 0 then NaN else inf_signed (0 < a))"
| "js_mul (Num a) NegInf = (if a = 0 then NaN else inf_signed (a < 0))"
| "js_mul PosInf (Num b) = (if b = 0 then NaN else inf_signed (0 < b))"
| "js_mul NegInf (Num b) = (if b = 0 then NaN else inf_signed (b < 0))"
| "js_mul PosInf PosInf = PosInf"
| "js_mul NegInf NegInf = PosInf"
| "js_mul PosInf NegInf = NegInf"
| "js_mul NegInf PosInf = NegInf"

text \<open>Division never throws: a finite non-zero value over zero is an infinity, zero over
  zero is \<^verbatim>\<open>NaN\<close>.\<close>
fun js_div :: "jsnum \<Rightarrow> jsnum \<Rightarrow> jsnum" where
  "js_div (Num a) (Num b) =
     (if b = 0 then (if a = 0 then NaN else inf_signed (0 < a)) else Num (a / b))"
| "js_div NaN _ = NaN"
| "js_div _ NaN = NaN"
| "js_div (Num a) PosInf = Num 0"
| "js_div (Num a) NegInf = Num 0"
| "js_div PosInf (Num b) = inf_signed (0 \<le> b)"
| "js_div NegInf (Num b) = inf_signed (b < 0)"
| "js_div PosInf PosInf = NaN"
| "js_div PosInf NegInf = NaN"
| "js_div NegInf PosInf = NaN"
| "js_div NegInf NegInf = NaN"

fun js_lt :: "jsnum \<Rightarrow> jsnum \<Rightarrow> bool" where
  "js_lt (Num a) (Num b) = (a < b)"
| "js_lt NaN _ = False"
| "js_lt _ NaN = False"
| "js_lt NegInf NegInf = False"
| "js_lt NegInf _ = True"
| "js_lt _ NegInf = False"
| "js_lt PosInf _ = False"
| "js_lt _ PosInf = True"

text \<open>\<^verbatim>\<open>a > b\<close> and \<^verbatim>\<open>a >= b\<close>; every comparison with \<^verbatim>\<open>NaN\<close> is false.\<close>
definition js_gt :: "jsnum \<Rightarrow> jsnum \<Rightarrow> bool" where
  "js_gt a b = js_lt b a"

definition js_ge :: "jsnum \<Rightarrow> jsnum \<Rightarrow> bool" where
  "js_ge a b \<longleftrightarrow> a \<noteq> NaN \<and> b \<noteq> NaN \<and> \<not> js_lt a b"

text \<open>Truthiness of a number: \<^verbatim>\<open>0\<close> and \<^verbatim>\<open>NaN\<close> are falsy.\<close>
definition truthy_num :: "jsnum \<Rightarrow> bool" where
  "truthy_num a \<longleftrightarrow> a \<noteq> Num 0 \<and> a \<noteq> NaN"

text \<open>\<^verbatim>\<open>isFinite\<close>\<close>
fun isFinite :: "jsnum \<Rightarrow> bool" where
  "isFinite (Num a) = True"
| "isFinite _ = False"

text \<open>\<^verbatim>\<open>Math.sqrt\<close>, \<^verbatim>\<open>Math.max\<close> of two arguments, \<^verbatim>\<open>Math.abs\<close>\<close>
fun js_sqrt :: "jsnum \<Rightarrow> jsnum" where
  "js_sqrt (Num a) = (if a < 0 then NaN else Num (sqrt a))"
| "js_sqrt PosInf = PosInf"
| "js_sqrt NegInf = NaN"
| "js_sqrt NaN = NaN"

definition js_max :: "jsnum \<Rightarrow> jsnum \<Rightarrow> jsnum" where
  "js_max a b = (if a = NaN \<or> b = NaN then NaN else if js_lt a b then b else a)"

fun js_abs :: "jsnum \<Rightarrow> jsnum" where
  "js_abs (Num a) = Num \<bar>a\<bar>"
| "js_abs PosInf = PosInf"
| "js_abs NegInf = PosInf"
| "js_abs NaN = NaN"

text \<open>A value that may be \<^verbatim>\<open>undefined\<close> or \<^verbatim>\<open>null\<close> is an option. \<^verbatim>\<open>x || d\<close> on an optional
  number, and the truthiness of an optional number and of an optional string.\<close>
definition num_or :: "jsnum option \<Rightarrow> jsnum \<Rightarrow> jsnum" where
  "num_or x d = (case x of None \<Rightarrow> d | Some a \<Rightarrow> if truthy_num a then a else d)"

definition truthy_num_opt :: "jsnum option \<Rightarrow> bool" where
  "truthy_num_opt x = (case x of None \<Rightarrow> False | Some a \<Rightarrow> truthy_num a)"

definition truthy_str :: "string option \<Rightarrow> bool" where
  "truthy_str x = (case x of None \<Rightarrow> False | Some s \<Rightarrow> s \<noteq> [])"

definition str_or :: "string option \<Rightarrow> string \<Rightarrow> string" where
  "str_or x d = (case x of None \<Rightarrow> d | Some s \<Rightarrow> if s \<noteq> [] then s else d)"

text \<open>Arithmetic on a number read from a payload: \<^verbatim>\<open>undefined\<close> converts to \<^verbatim>\<open>NaN\<close>.\<close>
definition to_num :: "jsnum option \<Rightarrow> jsnum" where
  "to_num x = (case x of None \<Rightarrow> NaN | Some a \<Rightarrow> a)"

subsection \<open>\<^verbatim>\<open>parseInt(s, 16)\<close>, \<^verbatim>\<open>parseFloat\<close>, \<^verbatim>\<open>toString(16)\<close>\<close>

definition hex_digit_val :: "char \<Rightarrow> nat" where
  "hex_digit_val c =
     (if in_range CHR ''0'' CHR ''9'' c then of_char c - 48
      else if in_range CHR ''a'' CHR ''f'' c then of_char c - 87
      else of_char c - 55)"

definition hex_value :: "string \<Rightarrow> nat" where
  "hex_value ds = foldl (\<lambda>a c. 16 * a + hex_digit_val c) 0 ds"

definition dec_value :: "string \<Rightarrow> nat" where
  "dec_value ds = foldl (\<lambda>a c. 10 * a + (of_char c - 48)) 0 ds"

text \<open>An optional sign in front of a numeric literal: whether it is a minus, and the rest.\<close>
definition strip_sign :: "string \<Rightarrow> bool \<times> string" where
  "strip_sign t = (case t of
       [] \<Rightarrow> (False, t)
     | c # r \<Rightarrow> if c = CHR ''-'' then (True, r) else if c = CHR ''+'' then (False, r)
                else (False, t))"

definition signed :: "bool \<Rightarrow> real \<Rightarrow> real" where
  "signed neg v = (if neg then - v else v)"

text \<open>\<^verbatim>\<open>parseInt(s, 16)\<close>: leading white space, an optional sign, an optional \<^verbatim>\<open>0x\<close> or \<^verbatim>\<open>0X\<close>,
  then the longest run of hexadecimal digits; \<^verbatim>\<open>NaN\<close> when that run is empty.\<close>
definition parseInt16 :: "string \<Rightarrow> jsnum" where
  "parseInt16 s =
    (let (neg, u) = strip_sign (dropWhile is_space s);
         v = (if startsWith u ''0x'' \<or> startsWith u ''0X'' then drop 2 u else u);
         ds = takeWhile is_hex v
     in if ds = [] then NaN else Num (signed neg (real (hex_value ds))))"

text \<open>On a field that may be absent: \<^verbatim>\<open>parseInt(undefined, 16)\<close> and \<^verbatim>\<open>parseInt(null, 16)\<close>
  are \<^verbatim>\<open>NaN\<close> (the texts \<^verbatim>\<open>undefined\<close> and \<^verbatim>\<open>null\<close> start with no hexadecimal digit).\<close>
definition parseInt16o :: "string option \<Rightarrow> jsnum" where
  "parseInt16o x = (case x of None \<Rightarrow> NaN | Some s \<Rightarrow> parseInt16 s)"

text \<open>The exponent part of a decimal literal: \<^verbatim>\<open>e\<close> or \<^verbatim>\<open>E\<close>, an optional sign and at least
  one digit; 0 when there is none.\<close>
definition exponent_part :: "string \<Rightarrow> int" where
  "exponent_part w = (case w of
       [] \<Rightarrow> 0
     | c # r \<Rightarrow>
         if c = CHR ''e'' \<or> c = CHR ''E''
         then (let (neg, d) = strip_sign r; ds = takeWhile is_digit d
               in if ds = [] then 0 else (if neg then - int (dec_value ds) else int (dec_value ds)))
         else 0)"

definition scale10 :: "real \<Rightarrow> int \<Rightarrow> real" where
  "scale10 v e = (if 0 \<le> e then v * 10 ^ nat e else v / 10 ^ nat (- e))"

text \<open>\<^verbatim>\<open>parseFloat\<close>: leading white space, then the longest prefix that is a decimal literal
  (sign, \<^verbatim>\<open>Infinity\<close>, digits, fraction, exponent); \<^verbatim>\<open>NaN\<close> when there is none.\<close>
definition parseFloat :: "string \<Rightarrow> jsnum" where
  "parseFloat s =
    (let (neg, u) = strip_sign (dropWhile is_space s);
         ip = takeWhile is_digit u;
         v = dropWhile is_digit u;
         has_dot = (case v of [] \<Rightarrow> False | c # r \<Rightarrow> c = CHR ''.'');
         fp = (if has_dot then takeWhile is_digit (tl v) else []);
         w = (if has_dot then dropWhile is_digit (tl v) else v)
     in if startsWith u ''Infinity'' then inf_signed (\<not> neg)
        else if ip = [] \<and> fp = [] then NaN
        else Num (signed neg
               (scale10 (real (dec_value ip) + real (dec_value fp) / 10 ^ length fp)
                  (exponent_part w))))"

fun hex_digit :: "nat \<Rightarrow> char" where
  "hex_digit n = (if n < 10 then char_of (48 + n) else char_of (87 + n))"

fun hex_of_nat_fuel :: "nat \<Rightarrow> nat \<Rightarrow> string" where
  "hex_of_nat_fuel 0 n = [hex_digit (n mod 16)]"
| "hex_of_nat_fuel (Suc k) n =
     (if n < 16 then [hex_digit n] else hex_of_nat_fuel k (n div 16) @ [hex_digit (n mod 16)])"

text \<open>The hexadecimal digits of a natural number (the number itself is enough fuel).\<close>
definition hex_of_nat :: "nat \<Rightarrow> string" where
  "hex_of_nat n = hex_of_nat_fuel n n"

text \<open>\<^verbatim>\<open>n.toString(16)\<close> for the numbers the block loops build: an integer (negative ones
  with a leading minus), \<^verbatim>\<open>NaN\<close> and the infinities by name.\<close>
fun toString16 :: "jsnum \<Rightarrow> string" where
  "toString16 (Num a) =
     (if a < 0 then CHR ''-'' # hex_of_nat (nat \<lfloor>- a\<rfloor>) else hex_of_nat (nat \<lfloor>a\<rfloor>))"
| "toString16 PosInf = ''Infinity''"
| "toString16 NegInf = ''-Infinity''"
| "toString16 NaN = ''NaN''"

subsection \<open>Errors, configuration, the network\<close>

text \<open>A thrown value: an \<^verbatim>\<open>Error\<close> object with its \<^verbatim>\<open>name\<close> and \<^verbatim>\<open>message\<close>.\<close>

record js_error =
  err_name :: string
  err_message :: string

text \<open>\<^verbatim>\<open>new Error(m)\<close>\<close>
definition Error :: "string \<Rightarrow> js_error" where
  "Error m = \<lparr>err_name = ''Error'', err_message = m\<rparr>"


text \<open>The interpolation \<^verbatim>\<open>${error.message || error}\<close>: the message, or for an empty message
  the text of the error object, which is then its name.\<close>
definition error_text :: "js_error \<Rightarrow> string" where
  "error_text e = (if err_message e \<noteq> [] then err_message e else err_name e)"

text \<open>An entry of \<^verbatim>\<open>FREE_API_ENDPOINTS\<close> (the field \<^verbatim>\<open>freeTier\<close> is never read).\<close>
record ApiConfig =
  url :: string
  requiresKey :: bool

text \<open>The tables of \<^verbatim>\<open>config/rpc.ts\<close> and the keys read from the environment.\<close>
record config =
  FREE_RPC_ENDPOINTS :: "string \<rightharpoonup> string list"
  FREE_API_ENDPOINTS :: "string \<rightharpoonup> ApiConfig"
  API_KEYS :: "string \<rightharpoonup> string"

text \<open>\<^verbatim>\<open>API_KEYS[chainId] || ''\<close>\<close>
definition getApiKey :: "config \<Rightarrow> string \<Rightarrow> string" where
  "getApiKey cfg chainId = str_or (API_KEYS cfg chainId) []"

text \<open>\<^verbatim>\<open>apiConfig?.requiresKey\<close> as a condition.\<close>
definition requiresKey_opt :: "ApiConfig option \<Rightarrow> bool" where
  "requiresKey_opt c = (case c of None \<Rightarrow> False | Some a \<Rightarrow> requiresKey a)"

text \<open>The outbound calls an operation issues, in the order it issues them.\<close>
datatype event =
    Probe string
  | RpcPost string string
  | ApiGet string string string
  | HttpGet string

definition is_api_call :: "event \<Rightarrow> bool" where
  "is_api_call e = (case e of ApiGet u m a \<Rightarrow> True | _ \<Rightarrow> False)"

text \<open>What \<^verbatim>\<open>fetch\<close> and \<^verbatim>\<open>response.json()\<close> can do inside \<^verbatim>\<open>testRpcEndpoint\<close>: reject,
  fail to parse, deliver \<^verbatim>\<open>null\<close>, or deliver an object whose \<^verbatim>\<open>result\<close> is defined or not.\<close>
datatype probe_reply =
    FetchRejected js_error
  | JsonRejected js_error
  | BodyNull
  | Body bool

text \<open>\<^verbatim>\<open>testRpcEndpoint\<close>: every failure is caught and becomes \<^verbatim>\<open>false\<close>.\<close>
definition testRpcEndpoint :: "probe_reply \<Rightarrow> bool" where
  "testRpcEndpoint reply = (case reply of Body result_defined \<Rightarrow> result_defined | _ \<Rightarrow> False)"

subsection \<open>Endpoint selection with the sticky cache\<close>

type_synonym rpcCache = "string \<rightharpoonup> nat"

text \<open>
  The loop \<^verbatim>\<open>for (let i = 0; i < endpoints.length; i++)\<close> of \<^verbatim>\<open>getAvailableRpcUrl\<close>, from
  iteration \<open>i\<close> with \<open>k\<close> iterations left. The oracle \<open>fetch\<close> answers the probe of iteration
  \<open>i\<close> at a URL. The result is the probes issued and the index that answered, if any.
\<close>
fun probe_loop ::
  "(nat \<Rightarrow> string \<Rightarrow> probe_reply) \<Rightarrow> string list \<Rightarrow> nat \<Rightarrow> nat \<Rightarrow> nat
     \<Rightarrow> event list \<times> nat option" where
  "probe_loop fetch endpoints startIndex i 0 = ([], None)"
| "probe_loop fetch endpoints startIndex i (Suc k) =
    (let index = (startIndex + i) mod length endpoints;
         endpoint = endpoints ! index;
         isAvailable = testRpcEndpoint (fetch i endpoint)
     in if isAvailable then ([Probe endpoint], Some index)
        else (case probe_loop fetch endpoints startIndex (Suc i) k of
                (tr, r) \<Rightarrow> (Probe endpoint # tr, r)))"

text \<open>\<^verbatim>\<open>this.rpcCache.get(chainId) || 0\<close>\<close>
definition cached_start :: "rpcCache \<Rightarrow> string \<Rightarrow> nat" where
  "cached_start cache chainId = (case cache chainId of None \<Rightarrow> 0 | Some n \<Rightarrow> n)"

text \<open>The result of an operation that may update the cache: the calls issued, the cache
  afterwards, and the value returned or the error thrown.\<close>
type_synonym 'a outcome = "event list \<times> rpcCache \<times> (js_error + 'a)"

definition trace_of :: "'a outcome \<Rightarrow> event list" where
  "trace_of r = fst r"

definition cache_of :: "'a outcome \<Rightarrow> rpcCache" where
  "cache_of r = fst (snd r)"

definition result_of :: "'a outcome \<Rightarrow> js_error + 'a" where
  "result_of r = snd (snd r)"

definition getAvailableRpcUrl ::
  "config \<Rightarrow> (nat \<Rightarrow> string \<Rightarrow> probe_reply) \<Rightarrow> rpcCache \<Rightarrow> string \<Rightarrow> string outcome" where
  "getAvailableRpcUrl cfg fetch cache chainId =
    (case FREE_RPC_ENDPOINTS cfg chainId of
       None \<Rightarrow> ([], cache, Inl (Error (''No RPC endpoints available for '' @ chainId)))
     | Some endpoints \<Rightarrow>
         if length endpoints = 0
         then ([], cache, Inl (Error (''No RPC endpoints available for '' @ chainId)))
         else (case probe_loop fetch endpoints (cached_start cache chainId) 0 (length endpoints) of
                 (tr, Some index) \<Rightarrow> (tr, cache(chainId \<mapsto> index), Inr (endpoints ! index))
               | (tr, None) \<Rightarrow> (tr, cache, Inr (endpoints ! 0))))"

subsection \<open>The tables of \<^verbatim>\<open>config/rpc.ts\<close> as shipped\<close>

text \<open>\<^verbatim>\<open>FREE_RPC_ENDPOINTS\<close> and \<^verbatim>\<open>FREE_API_ENDPOINTS\<close>, entry by entry, and the configuration
  they give with a table of keys.\<close>

definition FREE_RPC_ENDPOINTS_table :: "(string \<times> string list) list" where
  "FREE_RPC_ENDPOINTS_table =
    [(''ethereum'', [''https://eth.llamarpc.com'',
                ''https://rpc.ankr.com/eth'',
                ''https://ethereum.publicnode.com'',
                ''https://eth.drpc.org'',
                ''https://1rpc.io/eth'']),
     (''polygon'', [''https://polygon-rpc.com'',
               ''https://rpc.ankr.com/polygon'',
               ''https://polygon.llamarpc.com'',
               ''https://polygon.drpc.org'',
               ''https://1rpc.io/matic'']),
     (''bsc'', [''https://bsc-dataseed.binance.org'',
           ''https://bsc-dataseed1.defibit.io'',
           ''https://rpc.ankr.com/bsc'',
           ''https://bsc-dataseed1.ninicoin.io'',
           ''https://1rpc.io/bnb'']),
     (''avalanche'', [''https://api.avax.network/ext/bc/C/rpc'',
                 ''https://avalanche.public-rpc.com'',
                 ''https://rpc.ankr.com/avalanche'',
                 ''https://avax.drpc.org'',
                 ''https://1rpc.io/avax'']),
     (''arbitrum'', [''https://arb1.arbitrum.io/rpc'',
                ''https://rpc.ankr.com/arbitrum'',
                ''https://arbitrum.llamarpc.com'',
                ''https://arbitrum.drpc.org'',
                ''https://1rpc.io/arb'']),
     (''optimism'', [''https://mainnet.optimism.io'',
                ''https://rpc.ankr.com/optimism'',
                ''https://optimism.llamarpc.com'',
                ''https://optimism.drpc.org'',
                ''https://1rpc.io/op'']),
     (''solana'', [''https://api.mainnet-beta.solana.com'',
              ''https://rpc.ankr.com/solana'',
              ''https://solana.public-rpc.com'',
              ''https://solana.drpc.org'']),
     (''base'', [''https://mainnet.base.org'',
            ''https://base.llamarpc.com'',
            ''https://base.drpc.org'',
            ''https://1rpc.io/base'',
            ''https://rpc.ankr.com/base'']),
     (''linea'', [''https://rpc.linea.build'',
             ''https://linea.drpc.org'',
             ''https://1rpc.io/linea'']),
     (''zksync'', [''https://mainnet.era.zksync.io'',
              ''https://zksync.drpc.org'',
              ''https://1rpc.io/zksync'']),
     (''scroll'', [''https://rpc.scroll.io'',
              ''https://scroll.drpc.org'',
              ''https://1rpc.io/scroll'']),
     (''mantle'', [''https://rpc.mantle.xyz'',
              ''https://mantle.drpc.org'',
              ''https://1rpc.io/mantle'']),
     (''blast'', [''https://rpc.blast.io'',
             ''https://blast.drpc.org'']),
     (''starknet'', [''https://starknet-mainnet.public.blastapi.io'',
                ''https://rpc.starknet.io'']),
     (''sui'', [''https://fullnode.mainnet.sui.io'',
           ''https://sui-mainnet-endpoint.blockvision.org'']),
     (''aptos'', [''https://fullnode.mainnet.aptoslabs.com'',
             ''https://aptos-mainnet.public.blastapi.io'']),
     (''tron'', [''https://api.trongrid.io'',
            ''https://tron.blockpi.network/v1/rpc/public'']),
     (''cosmos'', [''https://cosmos-rpc.polkachu.com'',
              ''https://rpc.cosmos.network'']),
     (''near'', [''https://rpc.mainnet.near.org'',
            ''https://near-mainnet.api.onfinality.io/public'']),
     (''fantom'', [''https://rpc.ftm.tools'',
              ''https://fantom.drpc.org'',
              ''https://1rpc.io/ftm'']),
     (''celo'', [''https://forno.celo.org'',
            ''https://celo.drpc.org'']),
     (''gnosis'', [''https://rpc.gnosischain.com'',
              ''https://gnosis.drpc.org'']),
     (''moonbeam'', [''https://rpc.api.moonbeam.network'',
                ''https://moonbeam.drpc.org'']),
     (''cronos'', [''https://evm.cronos.org'',
              ''https://cronos.drpc.org'']),
     (''klaytn'', [''https://public-node-api.klaytnapi.com/v1/cypress'',
              ''https://klaytn.drpc.org'']),
     (''metis'', [''https://andromeda.metis.io/?owner=1088'',
             ''https://metis.drpc.org'']),
     (''boba'', [''https://mainnet.boba.network'',
            ''https://boba.drpc.org'']),
     (''aurora'', [''https://mainnet.aurora.dev'',
              ''https://aurora.drpc.org'']),
     (''harmony'', [''https://api.harmony.one'',
               ''https://harmony.drpc.org'']),
     (''fuse'', [''https://fuse-rpc.gateway.pokt.network'',
            ''https://fuse.drpc.org'']),
     (''celestia'', [''https://rpc.celestia.pops.one'']),
     (''filecoin'', [''https://api.node.glif.io/rpc/v1'']),
     (''immutable'', [''https://rpc.immutable.com'']),
     (''zora'', [''https://rpc.zora.energy'']),
     (''mode'', [''https://mainnet.mode.network'']),
     (''opbnb'', [''https://opbnb-mainnet-rpc.bnbchain.org'']),
     (''manta'', [''https://pacific-rpc.manta.network/http'']),
     (''kava'', [''https://evm.kava.io'']),
     (''evmos'', [''https://eth.bd.evmos.org:8545'']),
     (''canto'', [''https://canto.gravitychain.io'']),
     (''core'', [''https://rpc.coredao.org'']),
     (''zetachain'', [''https://zetachain-evm.blockpi.network/v1/rpc/public''])]"

definition FREE_API_ENDPOINTS_table :: "(string \<times> ApiConfig) list" where
  "FREE_API_ENDPOINTS_table =
    [(''ethereum'', \<lparr>url = ''https://api.etherscan.io/api'', requiresKey = True\<rparr>),
     (''polygon'', \<lparr>url = ''https://api.polygonscan.com/api'', requiresKey = True\<rparr>),
     (''bsc'', \<lparr>url = ''https://api.bscscan.com/api'', requiresKey = True\<rparr>),
     (''avalanche'', \<lparr>url = ''https://api.snowtrace.io/api'', requiresKey = True\<rparr>),
     (''arbitrum'', \<lparr>url = ''https://api.arbiscan.io/api'', requiresKey = True\<rparr>),
     (''optimism'', \<lparr>url = ''https://api-optimistic.etherscan.io/api'', requiresKey = True\<rparr>),
     (''bitcoin'', \<lparr>url = ''https://blockstream.info/api'', requiresKey = False\<rparr>),
     (''solana'', \<lparr>url = ''https://api.mainnet-beta.solana.com'', requiresKey = False\<rparr>),
     (''base'', \<lparr>url = ''https://api.basescan.org/api'', requiresKey = True\<rparr>),
     (''linea'', \<lparr>url = ''https://api.lineascan.build/api'', requiresKey = True\<rparr>),
     (''zksync'', \<lparr>url = ''https://block-explorer-api.mainnet.zksync.io/api'', requiresKey = False\<rparr>),
     (''scroll'', \<lparr>url = ''https://api.scrollscan.com/api'', requiresKey = True\<rparr>),
     (''mantle'', \<lparr>url = ''https://explorer.mantle.xyz/api'', requiresKey = False\<rparr>),
     (''blast'', \<lparr>url = ''https://api.blastscan.io/api'', requiresKey = True\<rparr>)]"

definition shipped_config :: "(string \<rightharpoonup> string) \<Rightarrow> config" where
  "shipped_config keys =
    \<lparr>FREE_RPC_ENDPOINTS = map_of FREE_RPC_ENDPOINTS_table,
     FREE_API_ENDPOINTS = map_of FREE_API_ENDPOINTS_table,
     API_KEYS = keys\<rparr>"

subsection \<open>Sample configuration and probe oracles\<close>

text \<open>Two entries of each table of \<^verbatim>\<open>config/rpc.ts\<close>, and a key for Ethereum.\<close>

definition example_config :: config where
  "example_config =
    \<lparr>FREE_RPC_ENDPOINTS =
       [''ethereum'' \<mapsto> [''https://eth.llamarpc.com'', ''https://rpc.ankr.com/eth'',
                          ''https://ethereum.publicnode.com'', ''https://eth.drpc.org'',
                          ''https://1rpc.io/eth''],
        ''solana'' \<mapsto> [''https://api.mainnet-beta.solana.com'', ''https://rpc.ankr.com/solana'',
                        ''https://solana.public-rpc.com'', ''https://solana.drpc.org'']],
     FREE_API_ENDPOINTS =
       [''ethereum'' \<mapsto> \<lparr>url = ''https://api.etherscan.io/api'', requiresKey = True\<rparr>,
        ''bitcoin'' \<mapsto> \<lparr>url = ''https://blockstream.info/api'', requiresKey = False\<rparr>,
        ''solana'' \<mapsto> \<lparr>url = ''https://api.mainnet-beta.solana.com'', requiresKey = False\<rparr>],
     API_KEYS = [''ethereum'' \<mapsto> ''KEY'']\<rparr>"

definition ethereum_pool :: "string list" where
  "ethereum_pool = [''https://eth.llamarpc.com'', ''https://rpc.ankr.com/eth'',
                          ''https://ethereum.publicnode.com'', ''https://eth.drpc.org'',
                          ''https://1rpc.io/eth'']"

definition all_down :: "nat \<Rightarrow> string \<Rightarrow> probe_reply" where
  "all_down i u = FetchRejected (Error ''Network Error'')"

definition third_up :: "nat \<Rightarrow> string \<Rightarrow> probe_reply" where
  "third_up i u = (if u = ''https://ethereum.publicnode.com'' then Body True else Body False)"

subsection \<open>Upstream payloads\<close>

text \<open>
  The fields the code reads from an upstream object, each of them possibly absent. An
  EVM quantity is a hexadecimal text. \<open>None\<close> is \<^verbatim>\<open>undefined\<close> or \<^verbatim>\<open>null\<close>.
\<close>

record evm_tx =
  tx_hash :: "string option"
  tx_from :: "string option"
  tx_to :: "string option"
  tx_value :: "string option"
  tx_gas :: "string option"
  tx_gasPrice :: "string option"
  tx_maxFeePerGas :: "string option"
  tx_maxPriorityFeePerGas :: "string option"
  tx_blockNumber :: "string option"
  tx_nonce :: "string option"
  tx_input :: "string option"

text \<open>\<open>rc_logs\<close> is the length of the \<^verbatim>\<open>logs\<close> array when there is one.\<close>
record evm_receipt =
  rc_gasUsed :: "string option"
  rc_transactionIndex :: "string option"
  rc_logs :: "nat option"
  rc_contractAddress :: "string option"
  rc_status :: "string option"

record evm_block =
  blk_number :: "string option"
  blk_hash :: "string option"
  blk_timestamp :: "string option"
  blk_gasUsed :: "string option"
  blk_gasLimit :: "string option"
  blk_transactions :: "evm_tx list option"

text \<open>The answer of the scan API to \<^verbatim>\<open>module=account&action=balance\<close>.\<close>
record balance_res =
  ab_status :: "string option"
  ab_message :: "string option"
  ab_result :: "string option"

text \<open>The answer of the scan API to a \<^verbatim>\<open>module=proxy\<close> call: \<open>pr_error\<close> is the message of
  the \<^verbatim>\<open>error\<close> object when there is one (empty when the object has no message).\<close>
record 'a proxy_res =
  pr_error :: "string option"
  pr_result :: "'a option"

text \<open>An item of a transaction list of the scan API, passed through untouched.\<close>
type_synonym raw = string

subsection \<open>The network as a record of oracles\<close>

text \<open>
  One oracle per kind of outbound call. An RPC oracle takes the endpoint URL and the
  parameters and answers \<open>Inl\<close> when the call rejects (transport failure, timeout, a
  body that is no object) and otherwise \<open>Inr\<close> of \<^verbatim>\<open>response.data.result\<close>. An API oracle
  takes the API URL, the parameters and the key and answers \<^verbatim>\<open>response.data\<close>.
  \<open>now\<close> is \<^verbatim>\<open>Date.now()\<close>.
\<close>

record net =
  probe_fetch :: "nat \<Rightarrow> string \<Rightarrow> probe_reply"
  now :: jsnum
  eth_getBalance :: "string \<Rightarrow> string \<Rightarrow> js_error + string option"
  eth_getTransactionCount :: "string \<Rightarrow> string \<Rightarrow> js_error + string option"
  eth_getTransactionByHash :: "string \<Rightarrow> string \<Rightarrow> js_error + evm_tx option"
  eth_getTransactionReceipt :: "string \<Rightarrow> string \<Rightarrow> js_error + evm_receipt option"
  eth_getBlockByNumber :: "string \<Rightarrow> string option \<Rightarrow> bool \<Rightarrow> js_error + evm_block option"
  eth_blockNumber :: "string \<Rightarrow> js_error + string option"
  api_balance :: "string \<Rightarrow> string \<Rightarrow> string \<Rightarrow> js_error + balance_res"
  api_txlist :: "string \<Rightarrow> string \<Rightarrow> string \<Rightarrow> js_error + raw list option"
  api_tokentx :: "string \<Rightarrow> string \<Rightarrow> string \<Rightarrow> js_error + raw list option"
  api_getTransactionByHash :: "string \<Rightarrow> string \<Rightarrow> string \<Rightarrow> js_error + evm_tx proxy_res"
  api_getTransactionReceipt :: "string \<Rightarrow> string \<Rightarrow> string \<Rightarrow> js_error + evm_receipt proxy_res"
  api_blockNumber :: "string \<Rightarrow> string \<Rightarrow> js_error + string proxy_res"
  api_getBlockByNumber :: "string \<Rightarrow> string option \<Rightarrow> string \<Rightarrow> js_error + evm_block proxy_res"

text \<open>\<^verbatim>\<open>.catch(() => ({ data: { result: null } }))\<close> on an RPC call and on an API call.\<close>
definition catch_null :: "js_error + 'a option \<Rightarrow> 'a option" where
  "catch_null r = (case r of Inl e \<Rightarrow> None | Inr x \<Rightarrow> x)"

definition catch_null_api :: "js_error + 'a proxy_res \<Rightarrow> 'a option" where
  "catch_null_api r = (case r of Inl e \<Rightarrow> None | Inr x \<Rightarrow> pr_result x)"

text \<open>\<^verbatim>\<open>.catch(() => ({ data: { result: [] } }))\<close>, then \<^verbatim>\<open>Array.isArray(r) ? r : []\<close>.\<close>
definition catch_list :: "js_error + raw list option \<Rightarrow> raw list" where
  "catch_list r = (case r of Inl e \<Rightarrow> [] | Inr None \<Rightarrow> [] | Inr (Some xs) \<Rightarrow> xs)"

text \<open>The gate in front of the keyed API, as the source writes it:
  \<^verbatim>\<open>!chain.apiUrl || !apiConfig?.requiresKey || !apiKey\<close>.\<close>
definition use_rpc_only :: "config \<Rightarrow> Chain \<Rightarrow> bool" where
  "use_rpc_only cfg chain \<longleftrightarrow>
     \<not> truthy_str (apiUrl chain)
     \<or> \<not> requiresKey_opt (FREE_API_ENDPOINTS cfg (chain_id chain))
     \<or> getApiKey cfg (chain_id chain) = []"

text \<open>\<^verbatim>\<open>chain.apiUrl\<close> where it is used as the URL of a call.\<close>
definition api_url :: "Chain \<Rightarrow> string" where
  "api_url chain = (case apiUrl chain of None \<Rightarrow> [] | Some u \<Rightarrow> u)"

subsection \<open>\<^verbatim>\<open>getEVMAddressInfo\<close>\<close>

record AddressInfo =
  ai_address :: string
  ai_balance :: jsnum
  ai_transactionCount :: jsnum
  ai_transactions :: "raw list"
  ai_tokenTransactions :: "raw list"
  ai_chain :: string

text \<open>The body of the first \<^verbatim>\<open>try\<close>: the RPC path taken when the gate skips the API.\<close>
definition address_rpc_only :: "config \<Rightarrow> net \<Rightarrow> rpcCache \<Rightarrow> string \<Rightarrow> Chain \<Rightarrow> AddressInfo outcome" where
  "address_rpc_only cfg nw cache address chain =
    (case getAvailableRpcUrl cfg (probe_fetch nw) cache (chain_id chain) of
       (tr, cache', Inl e) \<Rightarrow> (tr, cache', Inl e)
     | (tr, cache', Inr rpcUrl) \<Rightarrow>
        (case eth_getBalance nw rpcUrl address of
           Inl e \<Rightarrow> (tr @ [RpcPost rpcUrl ''eth_getBalance''], cache', Inl e)
         | Inr result \<Rightarrow>
            (let balance = js_div (parseInt16o result) (Num (10 ^ 18));
                 transactionCount =
                   (case eth_getTransactionCount nw rpcUrl address of
                      Inl e \<Rightarrow> Num 0
                    | Inr r \<Rightarrow> parseInt16o r)
             in (tr @ [RpcPost rpcUrl ''eth_getBalance'', RpcPost rpcUrl ''eth_getTransactionCount''],
                 cache',
                 Inr \<lparr>ai_address = address, ai_balance = balance,
                      ai_transactionCount = transactionCount, ai_transactions = [],
                      ai_tokenTransactions = [], ai_chain = chain_id chain\<rparr>))))"

text \<open>The body of the second \<^verbatim>\<open>try\<close>: the three API calls are issued together
  (\<^verbatim>\<open>Promise.all\<close>); only the balance call can make the tier fail.\<close>
definition address_api :: "net \<Rightarrow> string \<Rightarrow> string \<Rightarrow> string \<Rightarrow> Chain
     \<Rightarrow> event list \<times> (js_error + AddressInfo)" where
  "address_api nw apiUrl' apiKey address chain =
    (let tr = [ApiGet apiUrl' ''account'' ''balance'', ApiGet apiUrl' ''account'' ''txlist'',
               ApiGet apiUrl' ''account'' ''tokentx''];
         transactions = catch_list (api_txlist nw apiUrl' address apiKey);
         tokenTransactions = catch_list (api_tokentx nw apiUrl' address apiKey)
     in case api_balance nw apiUrl' address apiKey of
          Inl e \<Rightarrow> (tr, Inl e)
        | Inr balanceRes \<Rightarrow>
            if ab_status balanceRes = Some ''0'' \<and> ab_message balanceRes \<noteq> Some ''OK''
            then (tr, Inl (Error (str_or (ab_message balanceRes) ''Failed to fetch balance'')))
            else (tr, Inr \<lparr>ai_address = address,
                    ai_balance = js_div (parseFloat (str_or (ab_result balanceRes) ''0''))
                                   (Num (10 ^ 18)),
                    ai_transactionCount = Num (real (length transactions)),
                    ai_transactions = take 10 transactions,
                    ai_tokenTransactions = take 10 tokenTransactions,
                    ai_chain = chain_id chain\<rparr>))"

text \<open>The body of the \<^verbatim>\<open>try\<close> inside the \<^verbatim>\<open>catch\<close>: the RPC fallback.\<close>
definition address_rpc_fallback :: "config \<Rightarrow> net \<Rightarrow> rpcCache \<Rightarrow> string \<Rightarrow> Chain \<Rightarrow> AddressInfo outcome" where
  "address_rpc_fallback cfg nw cache address chain =
    (case getAvailableRpcUrl cfg (probe_fetch nw) cache (chain_id chain) of
       (tr, cache', Inl e) \<Rightarrow> (tr, cache', Inl e)
     | (tr, cache', Inr rpcUrl) \<Rightarrow>
        (case eth_getBalance nw rpcUrl address of
           Inl e \<Rightarrow> (tr @ [RpcPost rpcUrl ''eth_getBalance''], cache', Inl e)
         | Inr result \<Rightarrow>
            (tr @ [RpcPost rpcUrl ''eth_getBalance''], cache',
             Inr \<lparr>ai_address = address,
                  ai_balance = js_div (parseInt16o result) (Num (10 ^ 18)),
                  ai_transactionCount = Num 0, ai_transactions = [],
                  ai_tokenTransactions = [], ai_chain = chain_id chain\<rparr>)))"

text \<open>
  The control flow shared by the three read operations, with the source's two message
  prefixes: the gate; the RPC-only path, whose error is wrapped with \<open>prefix_rpc\<close>; else the
  API tier, and when it throws \<^verbatim>\<open>error\<close> the RPC fallback, whose own error \<^verbatim>\<open>rpcError\<close> is
  dropped: the \<^verbatim>\<open>catch (rpcError)\<close> block throws \<open>prefix_both\<close> and the text of \<^verbatim>\<open>error\<close>.
\<close>
definition source_selection ::
  "config \<Rightarrow> Chain \<Rightarrow> rpcCache \<Rightarrow> string \<Rightarrow> string
     \<Rightarrow> 'a outcome \<Rightarrow> (event list \<times> (js_error + 'a)) \<Rightarrow> 'a outcome \<Rightarrow> 'a outcome" where
  "source_selection cfg chain cache prefix_rpc prefix_both rpc_only api_tier rpc_fallback =
    (if use_rpc_only cfg chain
     then (case rpc_only of
             (tr, cache', Inl error) \<Rightarrow> (tr, cache', Inl (Error (prefix_rpc @ error_text error)))
           | (tr, cache', Inr v) \<Rightarrow> (tr, cache', Inr v))
     else (case api_tier of
             (tr, Inr v) \<Rightarrow> (tr, cache, Inr v)
           | (tr, Inl error) \<Rightarrow>
               (case rpc_fallback of
                  (tr2, cache', Inl rpcError) \<Rightarrow>
                     (tr @ tr2, cache', Inl (Error (prefix_both @ error_text error)))
                | (tr2, cache', Inr v) \<Rightarrow> (tr @ tr2, cache', Inr v))))"

definition getEVMAddressInfo :: "config \<Rightarrow> net \<Rightarrow> rpcCache \<Rightarrow> string \<Rightarrow> Chain \<Rightarrow> AddressInfo outcome" where
  "getEVMAddressInfo cfg nw cache address chain =
     source_selection cfg chain cache
       ''Failed to fetch address info via RPC: '' ''Failed to fetch address info: ''
       (address_rpc_only cfg nw cache address chain)
       (address_api nw (api_url chain) (getApiKey cfg (chain_id chain)) address chain)
       (address_rpc_fallback cfg nw cache address chain)"

subsection \<open>\<^verbatim>\<open>getEVMTransactionInfo\<close>\<close>

datatype tx_status = Success | Failed | Pending

record TxInfo =
  ti_hash :: string
  ti_from :: "string option"
  ti_to :: "string option"
  ti_value :: jsnum
  ti_gas :: jsnum
  ti_gasLimit :: jsnum
  ti_gasUsed :: "jsnum option"
  ti_gasPrice :: jsnum
  ti_maxFeePerGas :: "jsnum option"
  ti_maxPriorityFeePerGas :: "jsnum option"
  ti_blockNumber :: jsnum
  ti_transactionIndex :: "jsnum option"
  ti_nonce :: jsnum
  ti_input :: string
  ti_logsCount :: "nat option"
  ti_contractAddress :: "string option"
  ti_status :: tx_status
  ti_confirmations :: "jsnum option"
  ti_timestamp :: jsnum
  ti_methodId :: "string option"
  ti_functionName :: "string option"
  ti_chain :: string

text \<open>\<^verbatim>\<open>receipt ? (parseInt(receipt.status, 16) === 1 ? 'success' : 'failed') : 'pending'\<close>\<close>
definition status_of_receipt :: "evm_receipt option \<Rightarrow> tx_status" where
  "status_of_receipt receipt =
     (case receipt of
        None \<Rightarrow> Pending
      | Some rc \<Rightarrow> if parseInt16o (rc_status rc) = Num 1 then Success else Failed)"

text \<open>\<^verbatim>\<open>f ? parseInt(f, 16) / 1e9 : undefined\<close>\<close>
definition gwei_if_present :: "string option \<Rightarrow> jsnum option" where
  "gwei_if_present f =
     (if truthy_str f then Some (js_div (parseInt16o f) (Num (10 ^ 9))) else None)"

text \<open>The object literal returned at the three return sites; \<open>methodId\<close> is set at the
  API site only, \<^verbatim>\<open>functionName\<close> is never set.\<close>
definition tx_info ::
  "string \<Rightarrow> Chain \<Rightarrow> evm_tx \<Rightarrow> evm_receipt option \<Rightarrow> jsnum \<Rightarrow> jsnum option \<Rightarrow> jsnum
     \<Rightarrow> string option \<Rightarrow> TxInfo" where
  "tx_info txHash chain tx receipt blockNumber confirmations timestamp methodId =
    \<lparr>ti_hash = txHash,
     ti_from = tx_from tx,
     ti_to = tx_to tx,
     ti_value = js_div (parseInt16o (tx_value tx)) (Num (10 ^ 18)),
     ti_gas = parseInt16o (tx_gas tx),
     ti_gasLimit = parseInt16o (tx_gas tx),
     ti_gasUsed = (case receipt of None \<Rightarrow> None | Some rc \<Rightarrow> Some (parseInt16o (rc_gasUsed rc))),
     ti_gasPrice = js_div (parseInt16o (tx_gasPrice tx)) (Num (10 ^ 9)),
     ti_maxFeePerGas = gwei_if_present (tx_maxFeePerGas tx),
     ti_maxPriorityFeePerGas = gwei_if_present (tx_maxPriorityFeePerGas tx),
     ti_blockNumber = blockNumber,
     ti_transactionIndex =
       (case receipt of None \<Rightarrow> None | Some rc \<Rightarrow> Some (parseInt16o (rc_transactionIndex rc))),
     ti_nonce = parseInt16o (tx_nonce tx),
     ti_input = str_or (tx_input tx) ''0x'',
     ti_logsCount =
       (case receipt of None \<Rightarrow> None
        | Some rc \<Rightarrow> Some (case rc_logs rc of None \<Rightarrow> 0 | Some n \<Rightarrow> n)),
     ti_contractAddress =
       (case receipt of None \<Rightarrow> None
        | Some rc \<Rightarrow> if truthy_str (rc_contractAddress rc) then rc_contractAddress rc else None),
     ti_status = status_of_receipt receipt,
     ti_confirmations = confirmations,
     ti_timestamp = timestamp,
     ti_methodId = methodId,
     ti_functionName = None,
     ti_chain = chain_id chain\<rparr>"

text \<open>The RPC body, the same text at the RPC-only site and at the fallback site. The three
  calls of \<^verbatim>\<open>Promise.all\<close> are issued together; the receipt call and the latest-block call
  cannot fail the tier (\<^verbatim>\<open>.catch\<close>); the block call for the time stamp is made only when
  the transaction has a block number, inside its own \<^verbatim>\<open>try\<close>.\<close>
definition tx_rpc :: "config \<Rightarrow> net \<Rightarrow> rpcCache \<Rightarrow> string \<Rightarrow> Chain \<Rightarrow> TxInfo outcome" where
  "tx_rpc cfg nw cache txHash chain =
    (case getAvailableRpcUrl cfg (probe_fetch nw) cache (chain_id chain) of
       (tr, cache', Inl e) \<Rightarrow> (tr, cache', Inl e)
     | (tr, cache', Inr rpcUrl) \<Rightarrow>
        (let tr3 = tr @ [RpcPost rpcUrl ''eth_getTransactionByHash'',
                         RpcPost rpcUrl ''eth_getTransactionReceipt'',
                         RpcPost rpcUrl ''eth_getBlockByNumber'']
         in case eth_getTransactionByHash nw rpcUrl txHash of
              Inl e \<Rightarrow> (tr3, cache', Inl e)
            | Inr None \<Rightarrow> (tr3, cache', Inl (Error ''Transaction not found''))
            | Inr (Some tx) \<Rightarrow>
               (let receipt = catch_null (eth_getTransactionReceipt nw rpcUrl txHash);
                    latestBlock =
                      (case catch_null (eth_getBlockByNumber nw rpcUrl (Some ''latest'') False) of
                         None \<Rightarrow> None
                       | Some b \<Rightarrow> Some (parseInt16o (blk_number b)));
                    blockNumber = parseInt16o (tx_blockNumber tx);
                    confirmations =
                      (if truthy_num_opt latestBlock \<and> truthy_num blockNumber
                       then Some (js_add (js_sub (to_num latestBlock) blockNumber) (Num 1))
                       else None);
                    timestamp =
                      (if truthy_str (tx_blockNumber tx)
                       then (case catch_null (eth_getBlockByNumber nw rpcUrl (tx_blockNumber tx) False) of
                               None \<Rightarrow> js_div (now nw) (Num 1000)
                             | Some b \<Rightarrow> parseInt16o (blk_timestamp b))
                       else js_div (now nw) (Num 1000))
                in (tr3 @ (if truthy_str (tx_blockNumber tx)
                           then [RpcPost rpcUrl ''eth_getBlockByNumber''] else []),
                    cache',
                    Inr (tx_info txHash chain tx receipt blockNumber confirmations timestamp None)))))"

text \<open>\<^verbatim>\<open>if (tx.input && tx.input !== '0x' && tx.input.length >= 10) methodId = tx.input.slice(0, 10)\<close>\<close>
definition method_id :: "string option \<Rightarrow> string option" where
  "method_id inp =
     (case inp of
        None \<Rightarrow> None
      | Some i \<Rightarrow> if i \<noteq> [] \<and> i \<noteq> ''0x'' \<and> 10 \<le> length i then Some (take 10 i) else None)"

text \<open>The API body. The calls for the latest block number and for the block of the
  transaction are each in a \<^verbatim>\<open>try\<close> of their own.\<close>
definition tx_api :: "net \<Rightarrow> string \<Rightarrow> string \<Rightarrow> string \<Rightarrow> Chain
     \<Rightarrow> event list \<times> (js_error + TxInfo)" where
  "tx_api nw apiUrl' apiKey txHash chain =
    (let tr2 = [ApiGet apiUrl' ''proxy'' ''eth_getTransactionByHash'',
                ApiGet apiUrl' ''proxy'' ''eth_getTransactionReceipt'']
     in case api_getTransactionByHash nw apiUrl' txHash apiKey of
          Inl e \<Rightarrow> (tr2, Inl e)
        | Inr txRes \<Rightarrow>
           (case pr_error txRes of
              Some m \<Rightarrow> (tr2, Inl (Error (str_or (Some m) ''Transaction not found'')))
            | None \<Rightarrow>
               (case pr_result txRes of
                  None \<Rightarrow> (tr2, Inl (Error ''Transaction not found''))
                | Some tx \<Rightarrow>
                   (let receipt = catch_null_api (api_getTransactionReceipt nw apiUrl' txHash apiKey);
                        blockNumber = parseInt16o (tx_blockNumber tx);
                        confirmations =
                          (case api_blockNumber nw apiUrl' apiKey of
                             Inl e \<Rightarrow> None
                           | Inr r \<Rightarrow> Some (js_add (js_sub (parseInt16o (pr_result r)) blockNumber)
                                               (Num 1)));
                        timestamp =
                          (case catch_null_api
                                  (api_getBlockByNumber nw apiUrl' (tx_blockNumber tx) apiKey) of
                             None \<Rightarrow> js_div (now nw) (Num 1000)
                           | Some b \<Rightarrow> parseInt16o (blk_timestamp b))
                    in (tr2 @ [ApiGet apiUrl' ''proxy'' ''eth_blockNumber'',
                               ApiGet apiUrl' ''proxy'' ''eth_getBlockByNumber''],
                        Inr (tx_info txHash chain tx receipt blockNumber confirmations timestamp
                               (method_id (tx_input tx))))))))"

definition getEVMTransactionInfo :: "config \<Rightarrow> net \<Rightarrow> rpcCache \<Rightarrow> string \<Rightarrow> Chain \<Rightarrow> TxInfo outcome" where
  "getEVMTransactionInfo cfg nw cache txHash chain =
     source_selection cfg chain cache
       ''Failed to fetch transaction: '' ''Failed to fetch transaction: ''
       (tx_rpc cfg nw cache txHash chain)
       (tx_api nw (api_url chain) (getApiKey cfg (chain_id chain)) txHash chain)
       (tx_rpc cfg nw cache txHash chain)"

subsection \<open>\<^verbatim>\<open>getEVMBlockInfo\<close>\<close>

text \<open>The argument \<^verbatim>\<open>blockNumber: string | number\<close>.\<close>
datatype block_ref = ByNumber jsnum | ByTag string

text \<open>\<^verbatim>\<open>typeof blockNumber === 'number' ? `0x${blockNumber.toString(16)}` : blockNumber\<close>\<close>
definition block_tag :: "block_ref \<Rightarrow> string" where
  "block_tag b = (case b of ByNumber n \<Rightarrow> ''0x'' @ toString16 n | ByTag t \<Rightarrow> t)"

record BlockInfo =
  bi_number :: jsnum
  bi_hash :: "string option"
  bi_timestamp :: jsnum
  bi_transactions :: nat
  bi_gasUsed :: jsnum
  bi_gasLimit :: jsnum
  bi_chain :: string

definition block_info :: "Chain \<Rightarrow> evm_block \<Rightarrow> BlockInfo" where
  "block_info chain block =
    \<lparr>bi_number = parseInt16o (blk_number block),
     bi_hash = blk_hash block,
     bi_timestamp = parseInt16o (blk_timestamp block),
     bi_transactions = (case blk_transactions block of None \<Rightarrow> 0 | Some txs \<Rightarrow> length txs),
     bi_gasUsed = parseInt16o (blk_gasUsed block),
     bi_gasLimit = parseInt16o (blk_gasLimit block),
     bi_chain = chain_id chain\<rparr>"

definition block_rpc :: "config \<Rightarrow> net \<Rightarrow> rpcCache \<Rightarrow> string \<Rightarrow> Chain \<Rightarrow> BlockInfo outcome" where
  "block_rpc cfg nw cache blockTag chain =
    (case getAvailableRpcUrl cfg (probe_fetch nw) cache (chain_id chain) of
       (tr, cache', Inl e) \<Rightarrow> (tr, cache', Inl e)
     | (tr, cache', Inr rpcUrl) \<Rightarrow>
        (case eth_getBlockByNumber nw rpcUrl (Some blockTag) True of
           Inl e \<Rightarrow> (tr @ [RpcPost rpcUrl ''eth_getBlockByNumber''], cache', Inl e)
         | Inr None \<Rightarrow>
             (tr @ [RpcPost rpcUrl ''eth_getBlockByNumber''], cache', Inl (Error ''Block not found''))
         | Inr (Some block) \<Rightarrow>
             (tr @ [RpcPost rpcUrl ''eth_getBlockByNumber''], cache', Inr (block_info chain block))))"

definition block_api :: "net \<Rightarrow> string \<Rightarrow> string \<Rightarrow> string \<Rightarrow> Chain
     \<Rightarrow> event list \<times> (js_error + BlockInfo)" where
  "block_api nw apiUrl' apiKey blockTag chain =
    (let tr = [ApiGet apiUrl' ''proxy'' ''eth_getBlockByNumber'']
     in case api_getBlockByNumber nw apiUrl' (Some blockTag) apiKey of
          Inl e \<Rightarrow> (tr, Inl e)
        | Inr response \<Rightarrow>
           (case pr_error response of
              Some m \<Rightarrow> (tr, Inl (Error (str_or (Some m) ''Block not found'')))
            | None \<Rightarrow>
               (case pr_result response of
                  None \<Rightarrow> (tr, Inl (Error ''Block not found''))
                | Some block \<Rightarrow> (tr, Inr (block_info chain block)))))"

definition getEVMBlockInfo :: "config \<Rightarrow> net \<Rightarrow> rpcCache \<Rightarrow> block_ref \<Rightarrow> Chain \<Rightarrow> BlockInfo outcome" where
  "getEVMBlockInfo cfg nw cache blockNumber chain =
     source_selection cfg chain cache
       ''Failed to fetch block: '' ''Failed to fetch block: ''
       (block_rpc cfg nw cache (block_tag blockNumber) chain)
       (block_api nw (api_url chain) (getApiKey cfg (chain_id chain)) (block_tag blockNumber) chain)
       (block_rpc cfg nw cache (block_tag blockNumber) chain)"

subsection \<open>\<^verbatim>\<open>getSolanaAddressInfo\<close>\<close>



subsection \<open>Sample chains, keys and networks\<close>

definition keyed_ethereum :: Chain where
  "keyed_ethereum = \<lparr>chain_id = ''ethereum'', symbol = ''ETH'',
                      apiUrl = Some ''https://api.etherscan.io/api''\<rparr>"

text \<open>A network on which every call rejects: the API with one error, the RPC endpoints
  with another, and every probe fails.\<close>
definition net_down :: "js_error \<Rightarrow> js_error \<Rightarrow> net" where
  "net_down api_err rpc_err =
    \<lparr>probe_fetch = (\<lambda>i u. FetchRejected rpc_err),
     now = Num 1700000000000,
     eth_getBalance = (\<lambda>u a. Inl rpc_err),
     eth_getTransactionCount = (\<lambda>u a. Inl rpc_err),
     eth_getTransactionByHash = (\<lambda>u h. Inl rpc_err),
     eth_getTransactionReceipt = (\<lambda>u h. Inl rpc_err),
     eth_getBlockByNumber = (\<lambda>u t f. Inl rpc_err),
     eth_blockNumber = (\<lambda>u. Inl rpc_err),
     api_balance = (\<lambda>u a k. Inl api_err),
     api_txlist = (\<lambda>u a k. Inl api_err),
     api_tokentx = (\<lambda>u a k. Inl api_err),
     api_getTransactionByHash = (\<lambda>u h k. Inl api_err),
     api_getTransactionReceipt = (\<lambda>u h k. Inl api_err),
     api_blockNumber = (\<lambda>u k. Inl api_err),
     api_getBlockByNumber = (\<lambda>u t k. Inl api_err)\<rparr>"

definition blank_key_config :: config where
  "blank_key_config = example_config\<lparr>API_KEYS := [''ethereum'' \<mapsto> '' '']\<rparr>"

definition no_key_config :: config where
  "no_key_config = example_config\<lparr>API_KEYS := Map.empty\<rparr>"

definition pending_tx :: evm_tx where
  "pending_tx =
    \<lparr>tx_hash = Some ''0xdef'', tx_from = Some ''0x1111'', tx_to = Some ''0x2222'',
     tx_value = Some ''0xde0b6b3a7640000'', tx_gas = Some ''0x5208'',
     tx_gasPrice = Some ''0x3b9aca00'', tx_maxFeePerGas = None,
     tx_maxPriorityFeePerGas = None, tx_blockNumber = None, tx_nonce = Some ''0x1'',
     tx_input = Some ''0x''\<rparr>"

definition mined_receipt :: evm_receipt where
  "mined_receipt =
    \<lparr>rc_gasUsed = Some ''0x5208'', rc_transactionIndex = Some ''0x0'', rc_logs = Some 0,
     rc_contractAddress = None, rc_status = Some ''0x1''\<rparr>"

definition failed_receipt :: evm_receipt where
  "failed_receipt = mined_receipt\<lparr>rc_status := Some ''0x0''\<rparr>"

text \<open>Every probe answers; the RPC endpoints know the transaction and answer the receipt
  call with \<open>reply\<close>; the API rejects every call.\<close>
definition net_with_tx :: "js_error + evm_receipt option \<Rightarrow> net" where
  "net_with_tx reply =
     (net_down (Error ''Invalid API Key'') (Error ''Network Error''))
       \<lparr>probe_fetch := (\<lambda>i u. Body True),
        eth_getTransactionByHash := (\<lambda>u h. Inr (Some pending_tx)),
        eth_getTransactionReceipt := (\<lambda>u h. reply)\<rparr>"

text \<open>The API knows the transaction and answers the receipt call with \<open>reply\<close>; every
  probe fails and every RPC call rejects.\<close>
definition net_api_tx :: "js_error + evm_receipt proxy_res \<Rightarrow> net" where
  "net_api_tx reply =
     (net_down (Error ''Invalid API Key'') (Error ''Network Error''))
       \<lparr>api_getTransactionByHash :=
          (\<lambda>u h k. Inr \<lparr>pr_error = None, pr_result = Some pending_tx\<rparr>),
        api_getTransactionReceipt := (\<lambda>u h k. reply)\<rparr>"



subsection \<open>\<^verbatim>\<open>Array.prototype.sort\<close> with a comparator\<close>

text \<open>
  The sort is stable. It is modelled as an insertion sort that puts an element behind
  every element the comparator places strictly before it; a comparator result that is not
  positive (\<^verbatim>\<open>NaN\<close> counts as 0) leaves the earlier element first.
\<close>

fun js_insort :: "('a \<Rightarrow> 'a \<Rightarrow> jsnum) \<Rightarrow> 'a \<Rightarrow> 'a list \<Rightarrow> 'a list" where
  "js_insort cmp x [] = [x]"
| "js_insort cmp x (y # ys) =
     (if js_gt (cmp x y) (Num 0) then y # js_insort cmp x ys else x # y # ys)"

definition js_sort :: "('a \<Rightarrow> 'a \<Rightarrow> jsnum) \<Rightarrow> 'a list \<Rightarrow> 'a list" where
  "js_sort cmp xs = foldr (js_insort cmp) xs []"

subsection \<open>\<^verbatim>\<open>getLargeTransactions\<close>\<close>

record LargeTx =
  lt_hash :: "string option"
  lt_from :: "string option"
  lt_to :: "string option"
  lt_value :: jsnum
  lt_gas :: "jsnum option"
  lt_gasPrice :: "jsnum option"
  lt_blockNumber :: "jsnum option"
  lt_timestamp :: jsnum
  lt_chain :: string

text \<open>An entry of \<^verbatim>\<open>mempool/recent\<close>: \<open>bt_vin0_address\<close> is
  \<^verbatim>\<open>vin?.[0]?.prevout?.scriptpubkey_address\<close>, the block fields are those of \<^verbatim>\<open>status\<close>.\<close>
record btc_vout =
  vo_value :: "jsnum option"
  vo_address :: "string option"

record btc_tx =
  bt_txid :: "string option"
  bt_vin0_address :: "string option"
  bt_vout :: "btc_vout list option"
  bt_block_time :: "jsnum option"
  bt_block_height :: "jsnum option"

text \<open>A transaction of a Solana block: the first signature, the keys of the first two
  accounts, the balance arrays of \<^verbatim>\<open>meta\<close>.\<close>
record sol_tx =
  st_signature :: "string option"
  st_key0 :: "string option"
  st_key1 :: "string option"
  st_preBalances :: "jsnum list option"
  st_postBalances :: "jsnum list option"

record sol_block =
  sb_transactions :: "sol_tx list option"
  sb_blockTime :: "jsnum option"

text \<open>The oracles of the calls that are not EVM calls.\<close>
record alt_net =
  btc_mempool_recent :: "js_error + btc_tx list"
  sol_getSlot :: "string \<Rightarrow> js_error + jsnum option"
  sol_getBlock :: "string \<Rightarrow> jsnum \<Rightarrow> js_error + sol_block option"

text \<open>\<^verbatim>\<open>tx.vout?.reduce((sum, v) => sum + (v.value || 0), 0) / 1e8 || 0\<close>\<close>
definition btc_value :: "btc_tx \<Rightarrow> jsnum" where
  "btc_value tx =
    (let q = (case bt_vout tx of
                None \<Rightarrow> NaN
              | Some vs \<Rightarrow>
                  js_div (foldl (\<lambda>sum v. js_add sum (num_or (vo_value v) (Num 0))) (Num 0) vs)
                    (Num (10 ^ 8)))
     in if truthy_num q then q else Num 0)"

definition btc_large :: "jsnum \<Rightarrow> string \<Rightarrow> btc_tx \<Rightarrow> LargeTx" where
  "btc_large now' chainId tx =
    \<lparr>lt_hash = bt_txid tx,
     lt_from = Some (str_or (bt_vin0_address tx) ''N/A''),
     lt_to = Some (case bt_vout tx of
                     Some (v # vs) \<Rightarrow> str_or (vo_address v) ''N/A''
                   | _ \<Rightarrow> ''N/A''),
     lt_value = btc_value tx,
     lt_gas = None,
     lt_gasPrice = None,
     lt_blockNumber = (if truthy_num_opt (bt_block_height tx) then bt_block_height tx else None),
     lt_timestamp = num_or (bt_block_time tx) (js_div now' (Num 1000)),
     lt_chain = chainId\<rparr>"

text \<open>The Bitcoin branch: \<^verbatim>\<open>filter\<close>, \<^verbatim>\<open>slice(0, limit)\<close>, \<^verbatim>\<open>map\<close>; there is no \<^verbatim>\<open>sort\<close>.\<close>
definition large_bitcoin ::
  "net \<Rightarrow> alt_net \<Rightarrow> Chain \<Rightarrow> jsnum \<Rightarrow> nat \<Rightarrow> event list \<times> (js_error + LargeTx list)" where
  "large_bitcoin nw alt chain minValue limit =
    (let tr = [HttpGet ''https://blockstream.info/api/mempool/recent'']
     in case btc_mempool_recent alt of
          Inl error \<Rightarrow>
            (tr, Inl (Error (''Failed to fetch large transactions: '' @ error_text error)))
        | Inr txs \<Rightarrow>
            (tr, Inr (map (btc_large (now nw) (chain_id chain))
                        (take limit (filter (\<lambda>tx. js_ge (btc_value tx) minValue) txs)))))"

text \<open>The body of the \<^verbatim>\<open>forEach\<close> over the transactions of one EVM block answer.\<close>
definition evm_large_of_block :: "jsnum \<Rightarrow> Chain \<Rightarrow> evm_block option \<Rightarrow> LargeTx list" where
  "evm_large_of_block minValue chain result =
    (case result of
       None \<Rightarrow> []
     | Some block \<Rightarrow>
        (case blk_transactions block of
           None \<Rightarrow> []
         | Some txs \<Rightarrow>
            map (\<lambda>tx. \<lparr>lt_hash = tx_hash tx, lt_from = tx_from tx, lt_to = tx_to tx,
                        lt_value = js_div (parseInt16o (tx_value tx)) (Num (10 ^ 18)),
                        lt_gas = Some (parseInt16o (tx_gas tx)),
                        lt_gasPrice = Some (js_div (parseInt16o (tx_gasPrice tx)) (Num (10 ^ 9))),
                        lt_blockNumber = Some (parseInt16o (blk_number block)),
                        lt_timestamp = parseInt16o (blk_timestamp block),
                        lt_chain = chain_id chain\<rparr>)
              (filter (\<lambda>tx. js_ge (js_div (parseInt16o (tx_value tx)) (Num (10 ^ 18))) minValue)
                 txs)))"

text \<open>\<^verbatim>\<open>allTransactions.sort((a, b) => b.value - a.value).slice(0, limit)\<close>\<close>
definition top_by_value :: "nat \<Rightarrow> LargeTx list \<Rightarrow> LargeTx list" where
  "top_by_value limit allTransactions =
     take limit (js_sort (\<lambda>a b. js_sub (lt_value b) (lt_value a)) allTransactions)"

text \<open>The API branch: the latest block number, then five blocks, each in a \<^verbatim>\<open>try\<close> of its own.
  Only the first call can fail the branch.\<close>
definition large_api ::
  "net \<Rightarrow> string \<Rightarrow> string \<Rightarrow> Chain \<Rightarrow> jsnum \<Rightarrow> nat \<Rightarrow> event list \<times> (js_error + LargeTx list)" where
  "large_api nw apiUrl' apiKey chain minValue limit =
    (case api_blockNumber nw apiUrl' apiKey of
       Inl e \<Rightarrow> ([ApiGet apiUrl' ''proxy'' ''eth_blockNumber''], Inl e)
     | Inr latestBlockRes \<Rightarrow>
        (let latestBlock = parseInt16o (pr_result latestBlockRes);
             allTransactions =
               concat (map (\<lambda>i. evm_large_of_block minValue chain
                                  (catch_null_api
                                     (api_getBlockByNumber nw apiUrl'
                                        (Some (''0x'' @ toString16 (js_sub latestBlock (Num (real i)))))
                                        apiKey)))
                         [0..<5])
         in (ApiGet apiUrl' ''proxy'' ''eth_blockNumber''
               # replicate 5 (ApiGet apiUrl' ''proxy'' ''eth_getBlockByNumber''),
             Inr (top_by_value limit allTransactions))))"

fun dec_of_nat_fuel :: "nat \<Rightarrow> nat \<Rightarrow> string" where
  "dec_of_nat_fuel 0 n = [hex_digit (n mod 10)]"
| "dec_of_nat_fuel (Suc k) n =
     (if n < 10 then [hex_digit n] else dec_of_nat_fuel k (n div 10) @ [hex_digit (n mod 10)])"

text \<open>The decimal digits of an array index.\<close>
definition dec_of_nat :: "nat \<Rightarrow> string" where
  "dec_of_nat n = dec_of_nat_fuel n n"

text \<open>\<^verbatim>\<open>a[0]\<close> in a subtraction: \<^verbatim>\<open>undefined\<close> on an empty array, hence \<^verbatim>\<open>NaN\<close>.\<close>
definition first_num :: "jsnum list \<Rightarrow> jsnum" where
  "first_num xs = (case xs of [] \<Rightarrow> NaN | x # r \<Rightarrow> x)"

definition sol_value :: "sol_tx \<Rightarrow> jsnum" where
  "sol_value tx =
     (case st_preBalances tx of
        None \<Rightarrow> Num 0
      | Some pre \<Rightarrow>
         (case st_postBalances tx of
            None \<Rightarrow> Num 0
          | Some post \<Rightarrow> js_div (js_abs (js_sub (first_num pre) (first_num post))) (Num (10 ^ 9))))"

text \<open>The body of the \<^verbatim>\<open>forEach\<close> over the transactions of one Solana block answer.\<close>
definition sol_large_of_block ::
  "jsnum \<Rightarrow> jsnum \<Rightarrow> Chain \<Rightarrow> jsnum \<Rightarrow> sol_block option \<Rightarrow> LargeTx list" where
  "sol_large_of_block now' minValue chain slot result =
    (case result of
       None \<Rightarrow> []
     | Some block \<Rightarrow>
        (case sb_transactions block of
           None \<Rightarrow> []
         | Some txs \<Rightarrow>
            map (\<lambda>(index, tx).
                   \<lparr>lt_hash = Some (str_or (st_signature tx) (''solana-tx-'' @ dec_of_nat index)),
                    lt_from = Some (str_or (st_key0 tx) ''N/A''),
                    lt_to = Some (str_or (st_key1 tx) ''N/A''),
                    lt_value = sol_value tx,
                    lt_gas = None,
                    lt_gasPrice = None,
                    lt_blockNumber = Some slot,
                    lt_timestamp = num_or (sb_blockTime block) (js_div now' (Num 1000)),
                    lt_chain = chain_id chain\<rparr>)
              (filter (\<lambda>(index, tx). js_ge (sol_value tx) minValue) (enumerate 0 txs))))"

text \<open>The RPC branch, for Solana (five slots) and for the EVM chains (three blocks).\<close>
definition large_rpc ::
  "config \<Rightarrow> net \<Rightarrow> alt_net \<Rightarrow> rpcCache \<Rightarrow> Chain \<Rightarrow> jsnum \<Rightarrow> nat \<Rightarrow> LargeTx list outcome" where
  "large_rpc cfg nw alt cache chain minValue limit =
    (case getAvailableRpcUrl cfg (probe_fetch nw) cache (chain_id chain) of
       (tr, cache', Inl e) \<Rightarrow> (tr, cache', Inl e)
     | (tr, cache', Inr rpcUrl) \<Rightarrow>
        if chain_id chain = ''solana''
        then (case sol_getSlot alt rpcUrl of
                Inl e \<Rightarrow> (tr @ [RpcPost rpcUrl ''getSlot''], cache', Inl e)
              | Inr currentSlot \<Rightarrow>
                  if \<not> truthy_num_opt currentSlot
                  then (tr @ [RpcPost rpcUrl ''getSlot''], cache', Inr [])
                  else (let allTransactions =
                              concat (map (\<lambda>i. let slot = js_sub (to_num currentSlot) (Num (real i))
                                                in sol_large_of_block (now nw) minValue chain slot
                                                     (catch_null (sol_getBlock alt rpcUrl slot)))
                                        [0..<5])
                        in (tr @ RpcPost rpcUrl ''getSlot'' # replicate 5 (RpcPost rpcUrl ''getBlock''),
                            cache', Inr (top_by_value limit allTransactions))))
        else (case eth_blockNumber nw rpcUrl of
                Inl e \<Rightarrow> (tr @ [RpcPost rpcUrl ''eth_blockNumber''], cache', Inl e)
              | Inr result \<Rightarrow>
                  (let latestBlock = parseInt16o result;
                       allTransactions =
                         concat (map (\<lambda>i. evm_large_of_block minValue chain
                                            (catch_null
                                               (eth_getBlockByNumber nw rpcUrl
                                                  (Some (''0x'' @ toString16
                                                           (js_sub latestBlock (Num (real i)))))
                                                  True)))
                                   [0..<3])
                   in (tr @ RpcPost rpcUrl ''eth_blockNumber''
                          # replicate 3 (RpcPost rpcUrl ''eth_getBlockByNumber''),
                       cache', Inr (top_by_value limit allTransactions)))))"

text \<open>The condition of the API branch: \<^verbatim>\<open>chain.apiUrl && apiConfig?.requiresKey && apiKey\<close>.\<close>
definition use_api :: "config \<Rightarrow> Chain \<Rightarrow> bool" where
  "use_api cfg chain \<longleftrightarrow>
     truthy_str (apiUrl chain) \<and> requiresKey_opt (FREE_API_ENDPOINTS cfg (chain_id chain))
     \<and> getApiKey cfg (chain_id chain) \<noteq> []"

text \<open>The last \<^verbatim>\<open>try\<close>: the RPC branch behind the calls \<open>tr\<close> already issued, its error
  wrapped.\<close>
definition large_via_rpc ::
  "event list \<Rightarrow> config \<Rightarrow> net \<Rightarrow> alt_net \<Rightarrow> rpcCache \<Rightarrow> Chain \<Rightarrow> jsnum \<Rightarrow> nat
     \<Rightarrow> LargeTx list outcome" where
  "large_via_rpc tr cfg nw alt cache chain minValue limit =
    (case large_rpc cfg nw alt cache chain minValue limit of
       (tr2, cache', Inl error) \<Rightarrow>
         (tr @ tr2, cache',
          Inl (Error (''Failed to fetch large transactions: '' @ error_text error)))
     | (tr2, cache', Inr txs) \<Rightarrow> (tr @ tr2, cache', Inr txs))"

text \<open>\<open>limit\<close> is a count: the callers pass the literal 20. A negative \<open>limit\<close>, for which
  \<^verbatim>\<open>slice(0, limit)\<close> drops entries from the end, is not modelled.\<close>
definition getLargeTransactions ::
  "config \<Rightarrow> net \<Rightarrow> alt_net \<Rightarrow> rpcCache \<Rightarrow> Chain \<Rightarrow> jsnum \<Rightarrow> nat \<Rightarrow> LargeTx list outcome" where
  "getLargeTransactions cfg nw alt cache chain minValue limit =
    (if chain_id chain = ''bitcoin''
     then (case large_bitcoin nw alt chain minValue limit of (tr, r) \<Rightarrow> (tr, cache, r))
     else if use_api cfg chain
     then (case large_api nw (api_url chain) (getApiKey cfg (chain_id chain)) chain
                 minValue limit of
             (tr, Inr txs) \<Rightarrow> (tr, cache, Inr txs)
           | (tr, Inl e) \<Rightarrow> large_via_rpc tr cfg nw alt cache chain minValue limit)
     else large_via_rpc [] cfg nw alt cache chain minValue limit)"

subsection \<open>\<^verbatim>\<open>getAnalyticsData\<close>\<close>

text \<open>What \<^verbatim>\<open>getAnalyticsData\<close> reads from a transaction of the sample.\<close>
record sample_tx =
  s_from :: "string option"
  s_to :: "string option"
  s_value :: "jsnum option"
  s_gasPrice :: "jsnum option"
  s_timestamp :: "jsnum option"
  s_status :: "string option"

text \<open>The counts are natural numbers; the other fields are JavaScript numbers.\<close>
record Analytics =
  totalTransactions :: nat
  activeAddresses :: nat
  newAddresses :: nat
  totalVolume :: jsnum
  averageGasPrice :: jsnum
  blockProductionRate :: jsnum
  networkHealth :: jsnum
  largeTransactions :: nat
  transactionGrowth :: nat
  addressGrowth :: nat

definition zero_analytics :: Analytics where
  "zero_analytics =
    \<lparr>totalTransactions = 0, activeAddresses = 0, newAddresses = 0, totalVolume = Num 0,
     averageGasPrice = Num 0, blockProductionRate = Num 0, networkHealth = Num 0,
     largeTransactions = 0, transactionGrowth = 0, addressGrowth = 0\<rparr>"

text \<open>The values of an optional field that are present.\<close>
definition present :: "'a option list \<Rightarrow> 'a list" where
  "present xs = concat (map (\<lambda>x. case x of None \<Rightarrow> [] | Some v \<Rightarrow> [v]) xs)"

text \<open>
  \<open>fetched\<close> is the outcome of \<^verbatim>\<open>getLatestTransactions(chain, 1000)\<close>: an error, a missing
  value, or the sample. The size of the address \<^verbatim>\<open>Set\<close> is the number of distinct
  truthy \<^verbatim>\<open>from\<close> and \<^verbatim>\<open>to\<close> values.
\<close>
definition getAnalyticsData :: "Chain \<Rightarrow> js_error + sample_tx list option \<Rightarrow> Analytics" where
  "getAnalyticsData chain fetched =
    (case fetched of
       Inl error \<Rightarrow> zero_analytics
     | Inr None \<Rightarrow> zero_analytics
     | Inr (Some transactions) \<Rightarrow>
        if length transactions = 0 then zero_analytics
        else
         (let addressSet =
                remdups (concat (map (\<lambda>tx. filter (\<lambda>a. a \<noteq> [])
                                               (present [s_from tx, s_to tx]))
                                   transactions));
              totalVolume' =
                foldl (\<lambda>sum tx. js_add sum (num_or (s_value tx) (Num 0))) (Num 0) transactions;
              gasPrices =
                filter (\<lambda>price. truthy_num price \<and> js_gt price (Num 0))
                  (present (map s_gasPrice transactions));
              averageGasPrice' =
                (if length gasPrices > 0
                 then js_div (foldl (\<lambda>sum price. js_add sum price) (Num 0) gasPrices)
                        (Num (real (length gasPrices)))
                 else Num 0);
              threshold = (if chain_id chain = ''bitcoin'' then Num 1
                           else if chain_id chain = ''solana'' then Num 100 else Num 10);
              largeTransactions' =
                length (filter (\<lambda>tx. truthy_num_opt (s_value tx)
                                      \<and> js_ge (to_num (s_value tx)) threshold) transactions);
              timestamps =
                js_sort (\<lambda>a b. js_sub b a)
                  (filter truthy_num (present (map s_timestamp transactions)));
              blockProductionRate' =
                (if length timestamps > 1
                 then (let timeDiff = js_sub (timestamps ! 0)
                                        (timestamps ! (length timestamps - 1))
                       in js_div (Num (real (length timestamps))) (js_div timeDiff (Num 60)))
                 else Num 0);
              successRate =
                js_div (Num (real (length (filter (\<lambda>tx. s_status tx \<noteq> Some ''failed'')
                                             transactions))))
                  (Num (real (length transactions)));
              gasPriceStdDev =
                (if length gasPrices > 1
                 then js_sqrt
                        (js_div
                           (foldl (\<lambda>sum price.
                                     js_add sum (js_mul (js_sub price averageGasPrice')
                                                   (js_sub price averageGasPrice')))
                              (Num 0) gasPrices)
                           (Num (real (length gasPrices))))
                 else Num 0);
              gasPriceStability =
                (if js_gt averageGasPrice' (Num 0)
                 then js_max (Num 0) (js_sub (Num 1) (js_div gasPriceStdDev averageGasPrice'))
                 else Num 0);
              networkHealth' =
                js_mul (js_add (js_mul successRate (Num 0.7)) (js_mul gasPriceStability (Num 0.3)))
                  (Num 100)
          in \<lparr>totalTransactions = length transactions,
              activeAddresses = length addressSet,
              newAddresses = 0,
              totalVolume = totalVolume',
              averageGasPrice = averageGasPrice',
              blockProductionRate = blockProductionRate',
              networkHealth = networkHealth',
              largeTransactions = largeTransactions',
              transactionGrowth = 0,
              addressGrowth = 0\<rparr>))"

subsection \<open>Samples for the analytics and the large-transaction list\<close>

definition same_block_sample :: "sample_tx list" where
  "same_block_sample =
    [\<lparr>s_from = Some ''0x1111'', s_to = Some ''0x2222'', s_value = Some (Num 1),
      s_gasPrice = Some (Num 20), s_timestamp = Some (Num 1700000000), s_status = None\<rparr>,
     \<lparr>s_from = Some ''0x3333'', s_to = Some ''0x2222'', s_value = Some (Num 2),
      s_gasPrice = Some (Num 20), s_timestamp = Some (Num 1700000000), s_status = None\<rparr>]"

definition btc_chain :: Chain where
  "btc_chain = \<lparr>chain_id = ''bitcoin'', symbol = ''BTC'', apiUrl = None\<rparr>"

definition mempool_two :: "btc_tx list" where
  "mempool_two =
    [\<lparr>bt_txid = Some ''aa'', bt_vin0_address = None,
      bt_vout = Some [\<lparr>vo_value = Some (Num 100000000), vo_address = None\<rparr>],
      bt_block_time = None, bt_block_height = None\<rparr>,
     \<lparr>bt_txid = Some ''bb'', bt_vin0_address = None,
      bt_vout = Some [\<lparr>vo_value = Some (Num 500000000), vo_address = None\<rparr>],
      bt_block_time = None, bt_block_height = None\<rparr>]"

definition alt_mempool :: "btc_tx list \<Rightarrow> alt_net" where
  "alt_mempool txs =
    \<lparr>btc_mempool_recent = Inr txs,
     sol_getSlot = (\<lambda>u. Inl (Error ''Network Error'')),
     sol_getBlock = (\<lambda>u s. Inl (Error ''Network Error''))\<rparr>"

subsection \<open>Samples without infinities\<close>

text \<open>A sample number that is present is finite or \<^verbatim>\<open>NaN\<close>: what \<^verbatim>\<open>parseInt\<close>, a division by
  a non-zero constant and a JSON number give.\<close>
definition no_infinity :: "jsnum option \<Rightarrow> bool" where
  "no_infinity x = (case x of None \<Rightarrow> True | Some a \<Rightarrow> a \<noteq> PosInf \<and> a \<noteq> NegInf)"

definition finite_sample :: "sample_tx list \<Rightarrow> bool" where
  "finite_sample txs =
     list_all (\<lambda>tx. no_infinity (s_value tx) \<and> no_infinity (s_gasPrice tx)) txs"

section \<open>Properties of the chain detector\<close>

lemmas char_defs = in_range_def is_hex_def is_base58_def is_lower_alnum_def is_tron_char_def
  is_near_char_def is_digit_def is_space_def

lemmas re_defs = re_btc_legacy_def re_btc_bech32_def re_hex64_def re_evm_address_def
  re_evm_hash_def re_solana_def re_starts_13_def re_tron_def re_cosmos_def re_near_def
  re_hex_1_64_def re_digits_def startsWith_def endsWith_def rep_between_def

subsection \<open>Sorting a list that is already in confidence order\<close>

lemma keys_push_all: "set (map (\<lambda>m. - confidence m) (push_all cs k r)) \<subseteq> {- k}"
  by (auto simp: push_all_def)

lemma keys_push_found: "set (map (\<lambda>m. - confidence m) (push_found cs i k r)) \<subseteq> {- k}"
  by (auto simp: push_found_def split: option.splits)

lemma sorted_const: "set xs \<subseteq> {k} \<Longrightarrow> sorted (xs :: real list)"
  by (induction xs) auto

lemma sorted_two_bands:
  assumes "set xs \<subseteq> {a}" "set ys \<subseteq> {b}" "a \<le> b"
  shows "sorted (xs @ (ys :: real list))"
  using assms by (auto simp: sorted_append sorted_const[of xs a] sorted_const[of ys b])

lemma sort_matches_bands:
  assumes "set (map (\<lambda>m. - confidence m) xs) \<subseteq> {a}"
    and "set (map (\<lambda>m. - confidence m) ys) \<subseteq> {b}" and "a \<le> b"
  shows "sort_matches (xs @ ys) = xs @ ys"
  unfolding sort_matches_def
  by (rule sort_key_id_if_sorted) (use sorted_two_bands[OF assms] in simp)

lemma find_SomeD: "find P xs = Some x \<Longrightarrow> P x"
  by (induction xs) (auto split: if_splits)

lemma filter_push_all:
  "filter (\<lambda>m. P (mchain m)) (push_all cs k r) = push_all (filter P cs) k r"
  by (induction cs) (auto simp: push_all_def)

lemma filter_push_found_neq:
  "\<not> P i \<Longrightarrow> filter (\<lambda>m. P (chain_id (mchain m))) (push_found cs i k r) = []"
  by (auto simp: push_found_def split: option.splits dest: find_SomeD)

lemma filter_evm_push_found:
  "i \<in> {''bitcoin'', ''solana'', ''cosmos'', ''near'', ''tron'', ''aptos'', ''sui''} \<Longrightarrow>
   filter (\<lambda>m. is_evm_chain (mchain m)) (push_found cs i k r) = []"
  by (auto simp: push_found_def is_evm_chain_def split: option.splits dest!: find_SomeD)

subsection \<open>The input \<^verbatim>\<open>"0x" + "a" * 40\<close>\<close>

lemma a40_lit:
  "''0x'' @ replicate 40 CHR ''a'' = ''0xaaaaaaaaaaaaaaaaaaaaaaaaaaaaaaaaaaaaaaaa''"
  by (simp add: numeral_eq_Suc)

lemma trim_a40:
  "trim ''0xaaaaaaaaaaaaaaaaaaaaaaaaaaaaaaaaaaaaaaaa''
     = ''0xaaaaaaaaaaaaaaaaaaaaaaaaaaaaaaaaaaaaaaaa''"
  by (simp add: trim_def is_space_def)

lemma a40_regs:
  "\<not> re_btc_legacy ''0xaaaaaaaaaaaaaaaaaaaaaaaaaaaaaaaaaaaaaaaa''"
  "\<not> re_btc_bech32 ''0xaaaaaaaaaaaaaaaaaaaaaaaaaaaaaaaaaaaaaaaa''"
  "\<not> re_hex64 ''0xaaaaaaaaaaaaaaaaaaaaaaaaaaaaaaaaaaaaaaaa''"
  "re_evm_address ''0xaaaaaaaaaaaaaaaaaaaaaaaaaaaaaaaaaaaaaaaa''"
  "\<not> re_evm_hash ''0xaaaaaaaaaaaaaaaaaaaaaaaaaaaaaaaaaaaaaaaa''"
  "\<not> re_solana ''0xaaaaaaaaaaaaaaaaaaaaaaaaaaaaaaaaaaaaaaaa''"
  "\<not> re_tron ''0xaaaaaaaaaaaaaaaaaaaaaaaaaaaaaaaaaaaaaaaa''"
  "\<not> re_cosmos ''0xaaaaaaaaaaaaaaaaaaaaaaaaaaaaaaaaaaaaaaaa''"
  "re_near ''0xaaaaaaaaaaaaaaaaaaaaaaaaaaaaaaaaaaaaaaaa''"
  "re_hex_1_64 ''0xaaaaaaaaaaaaaaaaaaaaaaaaaaaaaaaaaaaaaaaa''"
  "\<not> re_digits ''0xaaaaaaaaaaaaaaaaaaaaaaaaaaaaaaaaaaaaaaaa''"
  "length ''0xaaaaaaaaaaaaaaaaaaaaaaaaaaaaaaaaaaaaaaaa'' = 42"
  by (simp_all add: re_defs char_defs)

text \<open>The whole answer on that input: the EVM matches, then NEAR, Aptos and Sui when they
  are configured (the NEAR and Aptos/Sui patterns accept the string too); the fallback to
  every chain when none of those is.\<close>

lemma detect_a40_full:
  "detectChains cs (''0x'' @ replicate 40 CHR ''a'') =
    (let X = push_all (filter is_evm_chain cs) 0.7 EvmAddressFormat
           @ push_found cs ''near'' 0.7 PossibleNearAddress
           @ push_found cs ''aptos'' 0.6 PossibleAptosAddress
           @ push_found cs ''sui'' 0.6 PossibleSuiAddress
     in if X = [] then push_all cs 0.1 UnknownFormat else X)"
proof -
  have s1: "sort_matches ((push_all (filter is_evm_chain cs) 0.7 EvmAddressFormat
           @ push_found cs ''near'' 0.7 PossibleNearAddress)
           @ (push_found cs ''aptos'' 0.6 PossibleAptosAddress
           @ push_found cs ''sui'' 0.6 PossibleSuiAddress))
        = (push_all (filter is_evm_chain cs) 0.7 EvmAddressFormat
           @ push_found cs ''near'' 0.7 PossibleNearAddress)
           @ (push_found cs ''aptos'' 0.6 PossibleAptosAddress
           @ push_found cs ''sui'' 0.6 PossibleSuiAddress)"
  proof (rule sort_matches_bands[where a="-0.7" and b="-0.6"])
    show "set (map (\<lambda>m. - confidence m) (push_all (filter is_evm_chain cs) 0.7 EvmAddressFormat
           @ push_found cs ''near'' 0.7 PossibleNearAddress)) \<subseteq> {- 0.7}"
      using keys_push_all[of "filter is_evm_chain cs" "0.7" EvmAddressFormat]
        keys_push_found[of cs "''near''" "0.7" PossibleNearAddress]
      by simp
    show "set (map (\<lambda>m. - confidence m) (push_found cs ''aptos'' 0.6 PossibleAptosAddress
           @ push_found cs ''sui'' 0.6 PossibleSuiAddress)) \<subseteq> {- 0.6}"
      using keys_push_found[of cs "''aptos''" "0.6" PossibleAptosAddress]
        keys_push_found[of cs "''sui''" "0.6" PossibleSuiAddress]
      by simp
    show "- 0.7 \<le> (- 0.6 :: real)" by simp
  qed
  have s2: "sort_matches (push_all cs 0.1 UnknownFormat) = push_all cs 0.1 UnknownFormat"
    using sort_matches_bands[of "push_all cs 0.1 UnknownFormat" "-0.1" "[]" "-0.1"]
      keys_push_all[of cs "0.1" UnknownFormat]
    by simp
  show ?thesis
    unfolding a40_lit detectChains_def trim_a40 Let_def
    using s1 s2 by (simp add: a40_regs)
qed

text \<open>
  Claim C4, as stated, fails: on the input \<^verbatim>\<open>"0x"\<close> followed by forty \<^verbatim>\<open>a\<close>, with Ethereum,
  Bitcoin, NEAR and Aptos configured, the answer holds three matches, of which only the
  first is for an EVM-family chain: a NEAR match at 0.7 and an Aptos match at 0.6 follow it.
  With Bitcoin alone configured the answer is the Bitcoin chain, at 0.1.
\<close>

theorem detectChains_evm_address_other_matches:
  "detectChains evm_near_aptos_chains (''0x'' @ replicate 40 CHR ''a'')
     = [\<lparr>mchain = \<lparr>chain_id = ''ethereum'', symbol = ''ETH'',
                     apiUrl = Some ''https://api.etherscan.io/api''\<rparr>,
          confidence = 0.7, reason = EvmAddressFormat\<rparr>,
        \<lparr>mchain = \<lparr>chain_id = ''near'', symbol = ''NEAR'', apiUrl = None\<rparr>,
          confidence = 0.7, reason = PossibleNearAddress\<rparr>,
        \<lparr>mchain = \<lparr>chain_id = ''aptos'', symbol = ''APT'', apiUrl = None\<rparr>,
          confidence = 0.6, reason = PossibleAptosAddress\<rparr>]
   \<and> detectChains bitcoin_only_chains (''0x'' @ replicate 40 CHR ''a'')
     = [\<lparr>mchain = \<lparr>chain_id = ''bitcoin'', symbol = ''BTC'', apiUrl = None\<rparr>,
          confidence = 0.1, reason = UnknownFormat\<rparr>]"
  unfolding detect_a40_full
  by (simp add: evm_near_aptos_chains_def bitcoin_only_chains_def is_evm_chain_def
      push_all_def push_found_def)

text \<open>
  Claim C4, amended. On the input \<^verbatim>\<open>"0x"\<close> followed by forty \<^verbatim>\<open>a\<close>, for every list of
  configured chains, the answer is, in this order: one match at 0.7 for every configured
  EVM-family chain, in configuration order; then a NEAR match at 0.7, an Aptos match at 0.6
  and a Sui match at 0.6, each when a chain of that id is configured; and nothing else.
  Only when this list is empty is the answer every configured chain at 0.1. So, with at
  least one EVM-family chain configured, the matches for EVM-family chains are one per
  configured EVM-family chain, and no match is for a chain of id \<^verbatim>\<open>bitcoin\<close>, \<^verbatim>\<open>solana\<close>
  or \<^verbatim>\<open>tron\<close>.
\<close>

theorem detectChains_evm_address:
  "detectChains cs (''0x'' @ replicate 40 CHR ''a'') =
     (let matches = push_all (filter is_evm_chain cs) 0.7 EvmAddressFormat
                  @ push_found cs ''near'' 0.7 PossibleNearAddress
                  @ push_found cs ''aptos'' 0.6 PossibleAptosAddress
                  @ push_found cs ''sui'' 0.6 PossibleSuiAddress
      in if matches = [] then push_all cs 0.1 UnknownFormat else matches)
   \<and> (filter is_evm_chain cs \<noteq> [] \<longrightarrow>
        filter (\<lambda>m. is_evm_chain (mchain m)) (detectChains cs (''0x'' @ replicate 40 CHR ''a''))
           = push_all (filter is_evm_chain cs) 0.7 EvmAddressFormat
      \<and> filter (\<lambda>m. chain_id (mchain m) = ''bitcoin'' \<or> chain_id (mchain m) = ''solana''
                     \<or> chain_id (mchain m) = ''tron'')
            (detectChains cs (''0x'' @ replicate 40 CHR ''a'')) = [])"
proof (intro conjI impI)
  show "detectChains cs (''0x'' @ replicate 40 CHR ''a'') =
     (let matches = push_all (filter is_evm_chain cs) 0.7 EvmAddressFormat
                  @ push_found cs ''near'' 0.7 PossibleNearAddress
                  @ push_found cs ''aptos'' 0.6 PossibleAptosAddress
                  @ push_found cs ''sui'' 0.6 PossibleSuiAddress
      in if matches = [] then push_all cs 0.1 UnknownFormat else matches)"
    by (rule detect_a40_full)
next
  assume evm: "filter is_evm_chain cs \<noteq> []"
  have ne: "push_all (filter is_evm_chain cs) 0.7 EvmAddressFormat \<noteq> []"
    using evm by (simp add: push_all_def)
  have full: "detectChains cs (''0x'' @ replicate 40 CHR ''a'') =
      push_all (filter is_evm_chain cs) 0.7 EvmAddressFormat
           @ push_found cs ''near'' 0.7 PossibleNearAddress
           @ push_found cs ''aptos'' 0.6 PossibleAptosAddress
           @ push_found cs ''sui'' 0.6 PossibleSuiAddress"
    unfolding detect_a40_full Let_def using ne by simp
  have a: "filter (\<lambda>m. is_evm_chain (mchain m))
             (push_all (filter is_evm_chain cs) 0.7 EvmAddressFormat)
       = push_all (filter is_evm_chain cs) 0.7 EvmAddressFormat"
    by (simp add: filter_push_all)
  have b: "filter (\<lambda>m. chain_id (mchain m) = ''bitcoin'' \<or> chain_id (mchain m) = ''solana''
                     \<or> chain_id (mchain m) = ''tron'')
        (push_all (filter is_evm_chain cs) 0.7 EvmAddressFormat) = []"
    by (auto simp: push_all_def filter_empty_conv is_evm_chain_def)
  have c: "filter (\<lambda>m. chain_id (mchain m) = ''bitcoin'' \<or> chain_id (mchain m) = ''solana''
                     \<or> chain_id (mchain m) = ''tron'')
        (push_found cs i k r) = []"
    if "i \<noteq> ''bitcoin''" "i \<noteq> ''solana''" "i \<noteq> ''tron''" for i k r
    using filter_push_found_neq
      [of "\<lambda>i. i = ''bitcoin'' \<or> i = ''solana'' \<or> i = ''tron''" i cs k r] that
    by simp
  show "filter (\<lambda>m. is_evm_chain (mchain m)) (detectChains cs (''0x'' @ replicate 40 CHR ''a''))
           = push_all (filter is_evm_chain cs) 0.7 EvmAddressFormat"
    unfolding full by (simp add: a b c filter_evm_push_found)
  show "filter (\<lambda>m. chain_id (mchain m) = ''bitcoin'' \<or> chain_id (mchain m) = ''solana''
                     \<or> chain_id (mchain m) = ''tron'')
            (detectChains cs (''0x'' @ replicate 40 CHR ''a'')) = []"
    unfolding full by (simp add: a b c filter_evm_push_found)
qed

theorem detectChains_evm_address_witness:
  "filter is_evm_chain example_chains \<noteq> []
   \<and> detectChains example_chains (''0x'' @ replicate 40 CHR ''a'')
      = [\<lparr>mchain = \<lparr>chain_id = ''ethereum'', symbol = ''ETH'',
                     apiUrl = Some ''https://api.etherscan.io/api''\<rparr>,
          confidence = 0.7, reason = EvmAddressFormat\<rparr>,
         \<lparr>mchain = \<lparr>chain_id = ''polygon'', symbol = ''MATIC'',
                     apiUrl = Some ''https://api.polygonscan.com/api''\<rparr>,
          confidence = 0.7, reason = EvmAddressFormat\<rparr>,
         \<lparr>mchain = \<lparr>chain_id = ''near'', symbol = ''NEAR'', apiUrl = None\<rparr>,
          confidence = 0.7, reason = PossibleNearAddress\<rparr>]
   \<and> filter (\<lambda>m. is_evm_chain (mchain m))
        (detectChains example_chains (''0x'' @ replicate 40 CHR ''a''))
      = [\<lparr>mchain = \<lparr>chain_id = ''ethereum'', symbol = ''ETH'',
                     apiUrl = Some ''https://api.etherscan.io/api''\<rparr>,
          confidence = 0.7, reason = EvmAddressFormat\<rparr>,
         \<lparr>mchain = \<lparr>chain_id = ''polygon'', symbol = ''MATIC'',
                     apiUrl = Some ''https://api.polygonscan.com/api''\<rparr>,
          confidence = 0.7, reason = EvmAddressFormat\<rparr>]
   \<and> filter (\<lambda>m. chain_id (mchain m) = ''bitcoin'' \<or> chain_id (mchain m) = ''solana''
                 \<or> chain_id (mchain m) = ''tron'')
        (detectChains example_chains (''0x'' @ replicate 40 CHR ''a'')) = []"
proof -
  have h: "filter is_evm_chain example_chains \<noteq> []"
    by (simp add: example_chains_def is_evm_chain_def)
  have l: "detectChains example_chains (''0x'' @ replicate 40 CHR ''a'')
      = [\<lparr>mchain = \<lparr>chain_id = ''ethereum'', symbol = ''ETH'',
                     apiUrl = Some ''https://api.etherscan.io/api''\<rparr>,
          confidence = 0.7, reason = EvmAddressFormat\<rparr>,
         \<lparr>mchain = \<lparr>chain_id = ''polygon'', symbol = ''MATIC'',
                     apiUrl = Some ''https://api.polygonscan.com/api''\<rparr>,
          confidence = 0.7, reason = EvmAddressFormat\<rparr>,
         \<lparr>mchain = \<lparr>chain_id = ''near'', symbol = ''NEAR'', apiUrl = None\<rparr>,
          confidence = 0.7, reason = PossibleNearAddress\<rparr>]"
    using detectChains_evm_address[of example_chains, THEN conjunct1]
    by (simp add: example_chains_def is_evm_chain_def push_all_def push_found_def)
  show ?thesis
    using h l detectChains_evm_address[of example_chains, THEN conjunct2, rule_format, OF h]
    by (simp add: example_chains_def is_evm_chain_def push_all_def)
qed

subsection \<open>Inputs of bech32 shape\<close>

lemma trim_id:
  assumes "s \<noteq> []" "\<not> is_space (hd s)" "\<not> is_space (last s)"
  shows "trim s = s"
proof -
  have 1: "dropWhile is_space s = s"
    using assms by (cases s) auto
  have 2: "dropWhile is_space (rev s) = rev s"
    using assms by (cases "rev s") (auto simp: last_rev[symmetric] hd_rev)
  show ?thesis by (simp add: trim_def 1 2)
qed

lemma lower_alnum_not_space: "is_lower_alnum c \<Longrightarrow> \<not> is_space c"
  by (auto simp: is_lower_alnum_def is_space_def in_range_def)

lemma lower_alnum_near: "is_lower_alnum c \<Longrightarrow> is_near_char c"
  by (auto simp: is_lower_alnum_def is_near_char_def)

lemma trim_bech32:
  assumes "list_all is_lower_alnum r" "r \<noteq> []"
  shows "trim (''bc1'' @ r) = ''bc1'' @ r"
proof (rule trim_id)
  show "''bc1'' @ r \<noteq> []" by simp
  show "\<not> is_space (hd (''bc1'' @ r))" by (simp add: is_space_def)
  have "last r \<in> set r" using assms by simp
  then have "is_lower_alnum (last r)" using assms by (simp add: list_all_iff)
  then show "\<not> is_space (last (''bc1'' @ r))"
    using assms lower_alnum_not_space by simp
qed

text \<open>The whole answer on an input of bech32 shape when Bitcoin is configured: the Bitcoin
  match, then a NEAR match when a chain with id \<^verbatim>\<open>near\<close> is configured, because
  \<^verbatim>\<open>/^[a-z0-9_-]+$/\<close> accepts every lower-case alphanumeric string shorter than 64.\<close>

lemma detect_bech32_full:
  assumes "list_all is_lower_alnum r" and "39 \<le> length r" and "length r \<le> 59"
    and "find (\<lambda>c. chain_id c = ''bitcoin'') cs = Some b"
  shows "detectChains cs (''bc1'' @ r) =
           \<lparr>mchain = b, confidence = 0.95, reason = BitcoinAddressFormat\<rparr>
           # push_found cs ''near'' 0.7 PossibleNearAddress"
proof -
  define q where "q = ''bc1'' @ r"
  have rne: "r \<noteq> []" using assms by auto
  have t: "trim q = q"
    unfolding q_def using trim_bech32[OF assms(1) rne] .
  have near: "list_all is_near_char r"
    using assms(1) lower_alnum_near by (auto simp: list_all_iff)
  have regs: "re_btc_bech32 q" "\<not> re_hex64 q"
    "\<not> re_evm_address q" "\<not> re_evm_hash q"
    "startsWith q ''bc1''" "\<not> re_tron q" "\<not> re_cosmos q"
    "re_near q" "\<not> re_hex_1_64 q" "\<not> re_digits q"
    "length q < 64"
    unfolding q_def using assms(1,2,3) near by (simp_all add: re_defs char_defs)
  have s: "sort_matches (\<lparr>mchain = b, confidence = 0.95, reason = BitcoinAddressFormat\<rparr>
             # push_found cs ''near'' 0.7 PossibleNearAddress)
          = \<lparr>mchain = b, confidence = 0.95, reason = BitcoinAddressFormat\<rparr>
             # push_found cs ''near'' 0.7 PossibleNearAddress"
    using sort_matches_bands[where a="-0.95" and b="-0.7"
        and xs="[\<lparr>mchain = b, confidence = 0.95, reason = BitcoinAddressFormat\<rparr>]"
        and ys="push_found cs ''near'' 0.7 PossibleNearAddress"]
      keys_push_found[of cs "''near''" "0.7" PossibleNearAddress]
    by simp
  have pf: "push_found cs ''bitcoin'' 0.95 BitcoinAddressFormat
          = [\<lparr>mchain = b, confidence = 0.95, reason = BitcoinAddressFormat\<rparr>]"
    using assms(4) by (simp add: push_found_def)
  have "detectChains cs q = \<lparr>mchain = b, confidence = 0.95, reason = BitcoinAddressFormat\<rparr>
           # push_found cs ''near'' 0.7 PossibleNearAddress"
    unfolding detectChains_def t Let_def
    using pf s by (simp add: regs)
  then show ?thesis unfolding q_def .
qed

lemma bech32_example_shape:
  "list_all is_lower_alnum ''qar0srrr7xfkvy5l643lydnw9re59gtzzwf5mdq''"
  "39 \<le> length ''qar0srrr7xfkvy5l643lydnw9re59gtzzwf5mdq''"
  "length ''qar0srrr7xfkvy5l643lydnw9re59gtzzwf5mdq'' \<le> 59"
  by (simp_all add: char_defs)

lemma find_bitcoin_example:
  "find (\<lambda>c. chain_id c = ''bitcoin'') example_chains
     = Some \<lparr>chain_id = ''bitcoin'', symbol = ''BTC'', apiUrl = None\<rparr>"
  by (simp add: example_chains_def)

lemma push_found_near_example:
  "push_found example_chains ''near'' k r
     = [\<lparr>mchain = \<lparr>chain_id = ''near'', symbol = ''NEAR'', apiUrl = None\<rparr>,
        confidence = k, reason = r\<rparr>]"
  by (simp add: example_chains_def push_found_def)

text \<open>
  Claim C5, as stated, fails: with Bitcoin and NEAR both configured, the bech32-shaped
  input \<^verbatim>\<open>bc1qar0srrr7xfkvy5l643lydnw9re59gtzzwf5mdq\<close> (\<^verbatim>\<open>bc1\<close> and 39 lower-case
  alphanumeric characters) gets two matches, Bitcoin at 0.95 and NEAR at 0.7.
\<close>

theorem detectChains_bech32_two_matches:
  "detectChains example_chains (''bc1'' @ ''qar0srrr7xfkvy5l643lydnw9re59gtzzwf5mdq'') =
      [\<lparr>mchain = \<lparr>chain_id = ''bitcoin'', symbol = ''BTC'', apiUrl = None\<rparr>,
        confidence = 0.95, reason = BitcoinAddressFormat\<rparr>,
       \<lparr>mchain = \<lparr>chain_id = ''near'', symbol = ''NEAR'', apiUrl = None\<rparr>,
        confidence = 0.7, reason = PossibleNearAddress\<rparr>]"
  unfolding detect_bech32_full[OF bech32_example_shape find_bitcoin_example]
    push_found_near_example
  by simp

text \<open>
  Claim C5, amended. For every input made of \<^verbatim>\<open>bc1\<close> and 39 to 59 lower-case alphanumeric
  characters, when a chain with id \<^verbatim>\<open>bitcoin\<close> is configured, the first match is Bitcoin
  with confidence 0.95, and the only other match is NEAR with confidence 0.7, present
  exactly when a chain with id \<^verbatim>\<open>near\<close> is configured.
\<close>

theorem detectChains_bech32:
  assumes "list_all is_lower_alnum r" and "39 \<le> length r" and "length r \<le> 59"
    and "find (\<lambda>c. chain_id c = ''bitcoin'') cs = Some b"
  shows "detectChains cs (''bc1'' @ r) =
           \<lparr>mchain = b, confidence = 0.95, reason = BitcoinAddressFormat\<rparr>
           # (case find (\<lambda>c. chain_id c = ''near'') cs of
                None \<Rightarrow> []
              | Some n \<Rightarrow> [\<lparr>mchain = n, confidence = 0.7, reason = PossibleNearAddress\<rparr>])"
  using detect_bech32_full[OF assms] by (simp add: push_found_def)

theorem detectChains_bech32_witness:
  "list_all is_lower_alnum ''qar0srrr7xfkvy5l643lydnw9re59gtzzwf5mdq''
   \<and> 39 \<le> length ''qar0srrr7xfkvy5l643lydnw9re59gtzzwf5mdq''
   \<and> length ''qar0srrr7xfkvy5l643lydnw9re59gtzzwf5mdq'' \<le> 59
   \<and> find (\<lambda>c. chain_id c = ''bitcoin'') example_chains
       = Some \<lparr>chain_id = ''bitcoin'', symbol = ''BTC'', apiUrl = None\<rparr>
   \<and> detectChains example_chains (''bc1'' @ ''qar0srrr7xfkvy5l643lydnw9re59gtzzwf5mdq'')
      = \<lparr>mchain = \<lparr>chain_id = ''bitcoin'', symbol = ''BTC'', apiUrl = None\<rparr>,
          confidence = 0.95, reason = BitcoinAddressFormat\<rparr>
        # (case find (\<lambda>c. chain_id c = ''near'') example_chains of
                None \<Rightarrow> []
              | Some n \<Rightarrow> [\<lparr>mchain = n, confidence = 0.7, reason = PossibleNearAddress\<rparr>])"
  using bech32_example_shape find_bitcoin_example
    detectChains_bech32[OF bech32_example_shape find_bitcoin_example]
  by (intro conjI)

section \<open>Properties of endpoint selection\<close>

lemma probe_loop_index_lt:
  "es \<noteq> [] \<Longrightarrow> probe_loop fetch es s i k = (tr, Some idx) \<Longrightarrow> idx < length es"
  by (induction k arbitrary: i tr) (auto simp: Let_def split: if_splits prod.splits)

lemma probe_loop_None_iff:
  "snd (probe_loop fetch es s i k) = None \<longleftrightarrow>
     (\<forall>j. i \<le> j \<and> j < i + k \<longrightarrow> \<not> testRpcEndpoint (fetch j (es ! ((s + j) mod length es))))"
proof (induction k arbitrary: i)
  case 0
  then show ?case by auto
next
  case (Suc k)
  let ?P = "\<lambda>j. \<not> testRpcEndpoint (fetch j (es ! ((s + j) mod length es)))"
  have "snd (probe_loop fetch es s i (Suc k)) = None
          \<longleftrightarrow> ?P i \<and> snd (probe_loop fetch es s (Suc i) k) = None"
    by (cases "probe_loop fetch es s (Suc i) k") (simp add: Let_def)
  also have "\<dots> \<longleftrightarrow> ?P i \<and> (\<forall>j. Suc i \<le> j \<and> j < Suc i + k \<longrightarrow> ?P j)"
    using Suc.IH[of "Suc i"] by simp
  also have "\<dots> \<longleftrightarrow> (\<forall>j. i \<le> j \<and> j < i + Suc k \<longrightarrow> ?P j)"
  proof
    assume h: "?P i \<and> (\<forall>j. Suc i \<le> j \<and> j < Suc i + k \<longrightarrow> ?P j)"
    show "\<forall>j. i \<le> j \<and> j < i + Suc k \<longrightarrow> ?P j"
    proof (intro allI impI)
      fix j assume j: "i \<le> j \<and> j < i + Suc k"
      show "?P j"
      proof (cases "j = i")
        case True
        then show ?thesis using h by simp
      next
        case False
        then have "Suc i \<le> j \<and> j < Suc i + k" using j by simp
        then show ?thesis using h by blast
      qed
    qed
  next
    assume h: "\<forall>j. i \<le> j \<and> j < i + Suc k \<longrightarrow> ?P j"
    have "?P i" using h by simp
    moreover have "\<forall>j. Suc i \<le> j \<and> j < Suc i + k \<longrightarrow> ?P j"
      using h by simp
    ultimately show "?P i \<and> (\<forall>j. Suc i \<le> j \<and> j < Suc i + k \<longrightarrow> ?P j)" by blast
  qed
  finally show ?case .
qed

lemma probe_loop_Some:
  assumes "j < k"
    and "testRpcEndpoint (fetch (i + j) (es ! ((s + (i + j)) mod length es)))"
    and "\<forall>j' < j. \<not> testRpcEndpoint (fetch (i + j') (es ! ((s + (i + j')) mod length es)))"
  shows "probe_loop fetch es s i k =
           (map (\<lambda>m. Probe (es ! ((s + m) mod length es))) [i..<Suc (i + j)],
            Some ((s + (i + j)) mod length es))"
  using assms
proof (induction k arbitrary: i j)
  case 0
  then show ?case by simp
next
  case (Suc k)
  show ?case
  proof (cases j)
    case 0
    then show ?thesis using Suc.prems by (simp add: Let_def)
  next
    case (Suc j0)
    have first: "\<not> testRpcEndpoint (fetch i (es ! ((s + i) mod length es)))"
      using Suc.prems(3) Suc by (metis add.right_neutral zero_less_Suc)
    have a: "j0 < k" using Suc.prems(1) Suc by simp
    have b: "testRpcEndpoint (fetch (Suc i + j0) (es ! ((s + (Suc i + j0)) mod length es)))"
      using Suc.prems(2) Suc by simp
    have c: "\<forall>j' < j0. \<not> testRpcEndpoint (fetch (Suc i + j') (es ! ((s + (Suc i + j')) mod length es)))"
    proof (intro allI impI)
      fix j' assume "j' < j0"
      then have "Suc j' < j" using Suc by simp
      then show "\<not> testRpcEndpoint (fetch (Suc i + j') (es ! ((s + (Suc i + j')) mod length es)))"
        using Suc.prems(3) by (metis add_Suc add_Suc_right)
    qed
    have ih: "probe_loop fetch es s (Suc i) k =
           (map (\<lambda>m. Probe (es ! ((s + m) mod length es))) [Suc i..<Suc (Suc i + j0)],
            Some ((s + (Suc i + j0)) mod length es))"
      using Suc.IH[OF a b c] .
    have up: "[i..<Suc (Suc (i + j0))] = i # [Suc i..<Suc (Suc (i + j0))]"
      by (rule upt_conv_Cons) simp
    show ?thesis
      using first ih Suc up by (simp add: Let_def del: upt_Suc)
  qed
qed

lemma probe_loop_trace:
  "\<exists>m \<le> k. (k \<noteq> 0 \<longrightarrow> m \<noteq> 0) \<and>
     fst (probe_loop fetch es s i k) = map (\<lambda>j. Probe (es ! ((s + j) mod length es))) [i..<i + m]"
proof (induction k arbitrary: i)
  case 0
  then show ?case by simp
next
  case (Suc k)
  show ?case
  proof (cases "testRpcEndpoint (fetch i (es ! ((s + i) mod length es)))")
    case True
    then have "fst (probe_loop fetch es s i (Suc k)) = map (\<lambda>j. Probe (es ! ((s + j) mod length es))) [i..<i + 1]"
      by (simp add: Let_def)
    then show ?thesis by (intro exI[of _ 1]) simp
  next
    case False
    obtain m where m: "m \<le> k"
      "fst (probe_loop fetch es s (Suc i) k) = map (\<lambda>j. Probe (es ! ((s + j) mod length es))) [Suc i..<Suc i + m]"
      using Suc.IH[of "Suc i"] by blast
    have "fst (probe_loop fetch es s i (Suc k)) = map (\<lambda>j. Probe (es ! ((s + j) mod length es))) [i..<i + Suc m]"
      using False m(2)
      by (cases "probe_loop fetch es s (Suc i) k") (simp add: Let_def upt_conv_Cons del: upt_Suc)
    then show ?thesis using m(1) by (intro exI[of _ "Suc m"]) simp
  qed
qed

lemma example_pool: "FREE_RPC_ENDPOINTS example_config ''ethereum'' = Some ethereum_pool"
  by (simp add: example_config_def ethereum_pool_def)

text \<open>
  Claim C2. For a chain id with a non-empty pool, \<^verbatim>\<open>getAvailableRpcUrl\<close> returns (it does not
  throw) a URL that is an element of the pool, whatever the probes answer; when every probe
  of the call fails, it returns the first URL of the pool.
\<close>

theorem getAvailableRpcUrl_in_pool:
  assumes "FREE_RPC_ENDPOINTS cfg chainId = Some pool" and "pool \<noteq> []"
  shows "(\<exists>u \<in> set pool. result_of (getAvailableRpcUrl cfg fetch cache chainId) = Inr u)
       \<and> ((\<forall>j < length pool. \<not> testRpcEndpoint
                (fetch j (pool ! ((cached_start cache chainId + j) mod length pool))))
           \<longrightarrow> result_of (getAvailableRpcUrl cfg fetch cache chainId) = Inr (hd pool))"
proof -
  obtain tr r where pl:
    "probe_loop fetch pool (cached_start cache chainId) 0 (length pool) = (tr, r)"
    by (cases "probe_loop fetch pool (cached_start cache chainId) 0 (length pool)")
  have res: "result_of (getAvailableRpcUrl cfg fetch cache chainId)
               = Inr (case r of None \<Rightarrow> pool ! 0 | Some index \<Rightarrow> pool ! index)"
    using assms pl by (simp add: getAvailableRpcUrl_def result_of_def split: option.splits)
  have mem: "(case r of None \<Rightarrow> pool ! 0 | Some index \<Rightarrow> pool ! index) \<in> set pool"
  proof (cases r)
    case None
    then show ?thesis using assms(2) by simp
  next
    case (Some index)
    then have "index < length pool"
      using probe_loop_index_lt[OF assms(2)] pl by blast
    then show ?thesis using Some by simp
  qed
  have fail: "r = None"
    if "\<forall>j < length pool. \<not> testRpcEndpoint
                (fetch j (pool ! ((cached_start cache chainId + j) mod length pool)))"
    using probe_loop_None_iff[of fetch pool "cached_start cache chainId" 0 "length pool"] pl that
    by simp
  show ?thesis
    using res mem fail assms(2) by (auto simp: hd_conv_nth)
qed

theorem getAvailableRpcUrl_in_pool_witness:
  "FREE_RPC_ENDPOINTS example_config ''ethereum'' = Some ethereum_pool
   \<and> ethereum_pool \<noteq> []
   \<and> (\<forall>j. \<not> testRpcEndpoint
          (all_down j (ethereum_pool ! ((cached_start Map.empty ''ethereum'' + j) mod length ethereum_pool))))
   \<and> result_of (getAvailableRpcUrl example_config all_down Map.empty ''ethereum'')
        = Inr ''https://eth.llamarpc.com''"
proof -
  have ne: "ethereum_pool \<noteq> []" by (simp add: ethereum_pool_def)
  have down: "\<forall>j. \<not> testRpcEndpoint
          (all_down j (ethereum_pool ! ((cached_start Map.empty ''ethereum'' + j) mod length ethereum_pool)))"
    by (simp add: all_down_def testRpcEndpoint_def)
  have hd: "hd ethereum_pool = ''https://eth.llamarpc.com''"
    by (simp add: ethereum_pool_def)
  show ?thesis
    using getAvailableRpcUrl_in_pool[OF example_pool ne, of all_down Map.empty] down ne example_pool hd
    by simp
qed

text \<open>
  Claim C7. When the call succeeds at pool index \<open>i\<close> (the probe of iteration \<open>j\<close> answers at
  index \<open>i\<close>, and no earlier probe does), it returns the URL at \<open>i\<close> and stores \<open>i\<close> in the cache
  for that chain; the next call for the chain, whatever its probes answer, probes
  \<open>pool[(i + k) mod len]\<close> for \<open>k = 0, 1, ...\<close>, starting at index \<open>i\<close>.
\<close>

theorem getAvailableRpcUrl_sticky:
  assumes "FREE_RPC_ENDPOINTS cfg chainId = Some pool" and "pool \<noteq> []"
    and "j < length pool"
    and "i = (cached_start cache chainId + j) mod length pool"
    and "testRpcEndpoint (fetch j (pool ! i))"
    and "\<forall>j' < j. \<not> testRpcEndpoint
           (fetch j' (pool ! ((cached_start cache chainId + j') mod length pool)))"
  shows "result_of (getAvailableRpcUrl cfg fetch cache chainId) = Inr (pool ! i)
       \<and> cache_of (getAvailableRpcUrl cfg fetch cache chainId) chainId = Some i
       \<and> (\<exists>m. 0 < m \<and> m \<le> length pool \<and>
            trace_of (getAvailableRpcUrl cfg fetch'
                        (cache_of (getAvailableRpcUrl cfg fetch cache chainId)) chainId)
              = map (\<lambda>k. Probe (pool ! ((i + k) mod length pool))) [0..<m])"
proof -
  have pl: "probe_loop fetch pool (cached_start cache chainId) 0 (length pool) =
           (map (\<lambda>m. Probe (pool ! ((cached_start cache chainId + m) mod length pool))) [0..<Suc j],
            Some i)"
    using probe_loop_Some[of j "length pool" fetch 0 pool "cached_start cache chainId"] assms(3-6)
    by simp
  have first: "getAvailableRpcUrl cfg fetch cache chainId =
      (map (\<lambda>m. Probe (pool ! ((cached_start cache chainId + m) mod length pool))) [0..<Suc j],
       cache(chainId \<mapsto> i), Inr (pool ! i))"
    using assms(1,2) pl by (simp add: getAvailableRpcUrl_def)
  define cache' where "cache' = cache(chainId \<mapsto> i)"
  have start: "cached_start cache' chainId = i"
    by (simp add: cache'_def cached_start_def)
  obtain m where m: "m \<le> length pool" "m \<noteq> 0"
    "fst (probe_loop fetch' pool i 0 (length pool))
       = map (\<lambda>k. Probe (pool ! ((i + k) mod length pool))) [0..<0 + m]"
    using probe_loop_trace[of "length pool" fetch' pool i 0] assms(2) by auto
  have second: "trace_of (getAvailableRpcUrl cfg fetch' cache' chainId)
       = fst (probe_loop fetch' pool i 0 (length pool))"
    using assms(1,2) start
    by (cases "probe_loop fetch' pool i 0 (length pool)")
       (simp add: getAvailableRpcUrl_def trace_of_def split: option.splits)
  have "\<exists>m. 0 < m \<and> m \<le> length pool \<and>
            trace_of (getAvailableRpcUrl cfg fetch' cache' chainId)
              = map (\<lambda>k. Probe (pool ! ((i + k) mod length pool))) [0..<m]"
    using m second by (intro exI[of _ m]) simp
  then show ?thesis
    unfolding first cache'_def by (simp add: result_of_def cache_of_def)
qed

theorem getAvailableRpcUrl_sticky_witness:
  "FREE_RPC_ENDPOINTS example_config ''ethereum'' = Some ethereum_pool
   \<and> ethereum_pool \<noteq> []
   \<and> (2::nat) < length ethereum_pool
   \<and> (2::nat) = (cached_start Map.empty ''ethereum'' + 2) mod length ethereum_pool
   \<and> testRpcEndpoint (third_up 2 (ethereum_pool ! 2))
   \<and> \<not> testRpcEndpoint
           (third_up 0 (ethereum_pool ! ((cached_start Map.empty ''ethereum'' + 0) mod length ethereum_pool)))
   \<and> \<not> testRpcEndpoint
           (third_up 1 (ethereum_pool ! ((cached_start Map.empty ''ethereum'' + 1) mod length ethereum_pool)))
   \<and> result_of (getAvailableRpcUrl example_config third_up Map.empty ''ethereum'')
        = Inr ''https://ethereum.publicnode.com''
   \<and> cache_of (getAvailableRpcUrl example_config third_up Map.empty ''ethereum'') ''ethereum'' = Some 2
   \<and> (\<exists>m. 0 < m \<and> m \<le> length ethereum_pool \<and>
        trace_of (getAvailableRpcUrl example_config all_down
                    (cache_of (getAvailableRpcUrl example_config third_up Map.empty ''ethereum''))
                    ''ethereum'')
          = map (\<lambda>k. Probe (ethereum_pool ! ((2 + k) mod length ethereum_pool))) [0..<m])"
proof -
  have ne: "ethereum_pool \<noteq> []" by (simp add: ethereum_pool_def)
  have h3: "(2::nat) < length ethereum_pool" by (simp add: ethereum_pool_def)
  have h4: "(2::nat) = (cached_start Map.empty ''ethereum'' + 2) mod length ethereum_pool"
    by (simp add: ethereum_pool_def cached_start_def)
  have h5: "testRpcEndpoint (third_up 2 (ethereum_pool ! 2))"
    by (simp add: ethereum_pool_def third_up_def testRpcEndpoint_def)
  have h6: "\<forall>j' < 2. \<not> testRpcEndpoint
           (third_up j' (ethereum_pool ! ((cached_start Map.empty ''ethereum'' + j') mod length ethereum_pool)))"
    by (auto simp: ethereum_pool_def third_up_def testRpcEndpoint_def cached_start_def
          less_2_cases_iff)
  have n2: "ethereum_pool ! 2 = ''https://ethereum.publicnode.com''"
    by (simp add: ethereum_pool_def)
  have h6a: "\<not> testRpcEndpoint
           (third_up 0 (ethereum_pool ! ((cached_start Map.empty ''ethereum'' + 0) mod length ethereum_pool)))"
    and h6b: "\<not> testRpcEndpoint
           (third_up 1 (ethereum_pool ! ((cached_start Map.empty ''ethereum'' + 1) mod length ethereum_pool)))"
    by (simp_all add: ethereum_pool_def third_up_def testRpcEndpoint_def cached_start_def)
  show ?thesis
    using getAvailableRpcUrl_sticky[OF example_pool ne h3 h4 h5 h6, of all_down]
      example_pool ne h3 h4 h5 h6a h6b
    unfolding n2 by blast
qed

section \<open>Properties of source selection and normalisation\<close>

lemma source_selection_both_fail:
  assumes "\<not> use_rpc_only cfg chain"
    and "api_tier = (tr1, Inl e1)"
    and "result_of rpc_fallback = Inl e2"
  shows "result_of (source_selection cfg chain cache p1 p2 rpc_only api_tier rpc_fallback)
           = Inl (Error (p2 @ error_text e1))"
  using assms
  by (cases rpc_fallback) (auto simp: source_selection_def result_of_def split: sum.splits)

lemma example_gate: "\<not> use_rpc_only example_config keyed_ethereum"
  by (simp add: use_rpc_only_def example_config_def keyed_ethereum_def truthy_str_def
        requiresKey_opt_def getApiKey_def str_or_def)

lemma getAvailableRpcUrl_returns:
  assumes "FREE_RPC_ENDPOINTS cfg chainId = Some pool" and "pool \<noteq> []"
  shows "\<exists>tr cache' u. getAvailableRpcUrl cfg fetch cache chainId = (tr, cache', Inr u)
           \<and> u \<in> set pool"
proof -
  obtain tr r where pl:
    "probe_loop fetch pool (cached_start cache chainId) 0 (length pool) = (tr, r)"
    by (cases "probe_loop fetch pool (cached_start cache chainId) 0 (length pool)")
  show ?thesis
  proof (cases r)
    case None
    then have "getAvailableRpcUrl cfg fetch cache chainId = (tr, cache, Inr (pool ! 0))"
      using assms pl by (simp add: getAvailableRpcUrl_def)
    then show ?thesis using assms(2) by simp
  next
    case (Some index)
    then have lt: "index < length pool"
      using probe_loop_index_lt[OF assms(2)] pl by blast
    have "getAvailableRpcUrl cfg fetch cache chainId
            = (tr, cache(chainId \<mapsto> index), Inr (pool ! index))"
      using assms pl Some by (simp add: getAvailableRpcUrl_def)
    then show ?thesis using lt by simp
  qed
qed

lemma net_down_simps:
  "probe_fetch (net_down a r) = (\<lambda>i u. FetchRejected r)"
  "eth_getBalance (net_down a r) = (\<lambda>u a. Inl r)"
  "eth_getTransactionByHash (net_down a r) = (\<lambda>u h. Inl r)"
  "eth_getBlockByNumber (net_down a r) = (\<lambda>u t f. Inl r)"
  "api_balance (net_down a r) = (\<lambda>u ad k. Inl a)"
  "api_txlist (net_down a r) = (\<lambda>u ad k. Inl a)"
  "api_tokentx (net_down a r) = (\<lambda>u ad k. Inl a)"
  "api_getTransactionByHash (net_down a r) = (\<lambda>u h k. Inl a)"
  "api_getBlockByNumber (net_down a r) = (\<lambda>u t k. Inl a)"
  by (simp_all add: net_down_def)

lemma address_api_down:
  "address_api (net_down a r) u k addr c =
     ([ApiGet u ''account'' ''balance'', ApiGet u ''account'' ''txlist'',
       ApiGet u ''account'' ''tokentx''], Inl a)"
  unfolding address_api_def Let_def by (simp add: net_down_simps)

lemma address_rpc_fallback_down:
  assumes "FREE_RPC_ENDPOINTS cfg (chain_id c) = Some pool" and "pool \<noteq> []"
  shows "result_of (address_rpc_fallback cfg (net_down a r) cache addr c) = Inl r"
proof -
  obtain tr cache' u where
    "getAvailableRpcUrl cfg (probe_fetch (net_down a r)) cache (chain_id c) = (tr, cache', Inr u)"
    using getAvailableRpcUrl_returns[OF assms] by blast
  then show ?thesis
    unfolding address_rpc_fallback_def by (simp add: net_down_simps result_of_def)
qed

lemma keyed_ethereum_pool:
  "FREE_RPC_ENDPOINTS example_config (chain_id keyed_ethereum) = Some ethereum_pool"
  "ethereum_pool \<noteq> []"
  by (simp_all add: keyed_ethereum_def example_config_def ethereum_pool_def)

text \<open>
  Claim C3, as stated, fails: with a key configured, the API rejecting with
  \<^verbatim>\<open>Invalid API Key\<close> and every RPC call rejecting with \<^verbatim>\<open>Network Error\<close>, the RPC fallback (the
  final attempt) fails with \<^verbatim>\<open>Network Error\<close>, and the error raised carries
  \<^verbatim>\<open>Invalid API Key\<close>, the error of the API tier.
\<close>

theorem both_tiers_fail_reports_api_error:
  "result_of (address_rpc_fallback example_config
               (net_down (Error ''Invalid API Key'') (Error ''Network Error'')) Map.empty
               ''0xabc'' keyed_ethereum) = Inl (Error ''Network Error'')
   \<and> result_of (getEVMAddressInfo example_config
               (net_down (Error ''Invalid API Key'') (Error ''Network Error'')) Map.empty
               ''0xabc'' keyed_ethereum)
      = Inl (Error ''Failed to fetch address info: Invalid API Key'')"
  unfolding getEVMAddressInfo_def address_api_down
  using source_selection_both_fail[OF example_gate refl
          address_rpc_fallback_down[OF keyed_ethereum_pool]]
  by (simp add: address_rpc_fallback_down[OF keyed_ethereum_pool] error_text_def Error_def)

text \<open>
  Claim C3, amended. Whenever the keyed-API tier is attempted and fails with \<open>e1\<close> and the
  RPC fallback then fails with \<open>e2\<close>, each of \<^verbatim>\<open>getEVMAddressInfo\<close>,
  \<^verbatim>\<open>getEVMTransactionInfo\<close> and \<^verbatim>\<open>getEVMBlockInfo\<close> raises an \<^verbatim>\<open>Error\<close> whose message is the
  operation's prefix followed by the text of \<open>e1\<close>, the first underlying error; \<open>e2\<close> is
  dropped.
\<close>

theorem both_tiers_fail:
  assumes "\<not> use_rpc_only cfg chain"
  shows "(snd (address_api nw (api_url chain) (getApiKey cfg (chain_id chain)) address chain) = Inl e1
          \<and> result_of (address_rpc_fallback cfg nw cache address chain) = Inl e2
          \<longrightarrow> result_of (getEVMAddressInfo cfg nw cache address chain)
                = Inl (Error (''Failed to fetch address info: '' @ error_text e1)))
       \<and> (snd (tx_api nw (api_url chain) (getApiKey cfg (chain_id chain)) txHash chain) = Inl e1
          \<and> result_of (tx_rpc cfg nw cache txHash chain) = Inl e2
          \<longrightarrow> result_of (getEVMTransactionInfo cfg nw cache txHash chain)
                = Inl (Error (''Failed to fetch transaction: '' @ error_text e1)))
       \<and> (snd (block_api nw (api_url chain) (getApiKey cfg (chain_id chain)) (block_tag b) chain) = Inl e1
          \<and> result_of (block_rpc cfg nw cache (block_tag b) chain) = Inl e2
          \<longrightarrow> result_of (getEVMBlockInfo cfg nw cache b chain)
                = Inl (Error (''Failed to fetch block: '' @ error_text e1)))"
proof (intro conjI impI)
  assume h: "snd (address_api nw (api_url chain) (getApiKey cfg (chain_id chain)) address chain) = Inl e1
          \<and> result_of (address_rpc_fallback cfg nw cache address chain) = Inl e2"
  obtain tr1 where "address_api nw (api_url chain) (getApiKey cfg (chain_id chain)) address chain = (tr1, Inl e1)"
    using h by (cases "address_api nw (api_url chain) (getApiKey cfg (chain_id chain)) address chain") simp
  then show "result_of (getEVMAddressInfo cfg nw cache address chain)
                = Inl (Error (''Failed to fetch address info: '' @ error_text e1))"
    unfolding getEVMAddressInfo_def
    using source_selection_both_fail[OF assms] h by blast
next
  assume h: "snd (tx_api nw (api_url chain) (getApiKey cfg (chain_id chain)) txHash chain) = Inl e1
          \<and> result_of (tx_rpc cfg nw cache txHash chain) = Inl e2"
  obtain tr1 where "tx_api nw (api_url chain) (getApiKey cfg (chain_id chain)) txHash chain = (tr1, Inl e1)"
    using h by (cases "tx_api nw (api_url chain) (getApiKey cfg (chain_id chain)) txHash chain") simp
  then show "result_of (getEVMTransactionInfo cfg nw cache txHash chain)
                = Inl (Error (''Failed to fetch transaction: '' @ error_text e1))"
    unfolding getEVMTransactionInfo_def
    using source_selection_both_fail[OF assms] h by blast
next
  assume h: "snd (block_api nw (api_url chain) (getApiKey cfg (chain_id chain)) (block_tag b) chain) = Inl e1
          \<and> result_of (block_rpc cfg nw cache (block_tag b) chain) = Inl e2"
  obtain tr1 where "block_api nw (api_url chain) (getApiKey cfg (chain_id chain)) (block_tag b) chain = (tr1, Inl e1)"
    using h by (cases "block_api nw (api_url chain) (getApiKey cfg (chain_id chain)) (block_tag b) chain") simp
  then show "result_of (getEVMBlockInfo cfg nw cache b chain)
                = Inl (Error (''Failed to fetch block: '' @ error_text e1))"
    unfolding getEVMBlockInfo_def
    using source_selection_both_fail[OF assms] h by blast
qed

lemma probe_loop_no_api: "list_all (\<lambda>e. \<not> is_api_call e) (fst (probe_loop fetch es s i k))"
proof -
  obtain m where "fst (probe_loop fetch es s i k)
      = map (\<lambda>j. Probe (es ! ((s + j) mod length es))) [i..<i + m]"
    using probe_loop_trace[of k fetch es s i] by blast
  then show ?thesis by (simp add: list_all_iff is_api_call_def)
qed

lemma probe_loop_no_api':
  "probe_loop fetch es s i k = (tr, r) \<Longrightarrow> list_all (\<lambda>e. \<not> is_api_call e) tr"
  using probe_loop_no_api[of fetch es s i k] by simp

lemma getAvailableRpcUrl_no_api:
  "getAvailableRpcUrl cfg fetch cache c = (tr, cache', r) \<Longrightarrow> list_all (\<lambda>e. \<not> is_api_call e) tr"
  by (auto simp: getAvailableRpcUrl_def split: option.splits if_splits prod.splits
        dest: probe_loop_no_api')

lemma address_rpc_only_no_api:
  "list_all (\<lambda>e. \<not> is_api_call e) (trace_of (address_rpc_only cfg nw cache a c))"
  using getAvailableRpcUrl_no_api[of cfg "probe_fetch nw" cache "chain_id c"]
  by (cases "getAvailableRpcUrl cfg (probe_fetch nw) cache (chain_id c)")
     (auto simp: address_rpc_only_def trace_of_def is_api_call_def Let_def split: sum.splits)

lemma tx_rpc_no_api:
  "list_all (\<lambda>e. \<not> is_api_call e) (trace_of (tx_rpc cfg nw cache h c))"
  using getAvailableRpcUrl_no_api[of cfg "probe_fetch nw" cache "chain_id c"]
  by (cases "getAvailableRpcUrl cfg (probe_fetch nw) cache (chain_id c)")
     (auto simp: tx_rpc_def trace_of_def is_api_call_def Let_def split: sum.splits option.splits)

lemma block_rpc_no_api:
  "list_all (\<lambda>e. \<not> is_api_call e) (trace_of (block_rpc cfg nw cache t c))"
  using getAvailableRpcUrl_no_api[of cfg "probe_fetch nw" cache "chain_id c"]
  by (cases "getAvailableRpcUrl cfg (probe_fetch nw) cache (chain_id c)")
     (auto simp: block_rpc_def trace_of_def is_api_call_def Let_def split: sum.splits option.splits)

lemma source_selection_rpc_only:
  assumes "use_rpc_only cfg chain"
  shows "trace_of (source_selection cfg chain cache p1 p2 rpc_only api_tier rpc_fallback)
           = trace_of rpc_only"
    and "cache_of (source_selection cfg chain cache p1 p2 rpc_only api_tier rpc_fallback)
           = cache_of rpc_only"
    and "result_of (source_selection cfg chain cache p1 p2 rpc_only api_tier rpc_fallback)
           = (case result_of rpc_only of
                Inl error \<Rightarrow> Inl (Error (p1 @ error_text error)) | Inr v \<Rightarrow> Inr v)"
  using assms
  by (cases rpc_only; auto simp: source_selection_def trace_of_def cache_of_def result_of_def
        split: sum.splits)+

lemma empty_key_gate: "getApiKey cfg (chain_id chain) = [] \<Longrightarrow> use_rpc_only cfg chain"
  by (simp add: use_rpc_only_def)

text \<open>
  Claim C8, amended. When the API key of the chain is the empty string, each of the three
  read operations issues exactly the calls of its RPC-only path, and none of them is a call
  to the keyed API.
\<close>

theorem empty_key_skips_api:
  assumes "getApiKey cfg (chain_id chain) = []"
  shows "trace_of (getEVMAddressInfo cfg nw cache address chain)
           = trace_of (address_rpc_only cfg nw cache address chain)
       \<and> list_all (\<lambda>e. \<not> is_api_call e) (trace_of (getEVMAddressInfo cfg nw cache address chain))
       \<and> trace_of (getEVMTransactionInfo cfg nw cache txHash chain)
           = trace_of (tx_rpc cfg nw cache txHash chain)
       \<and> list_all (\<lambda>e. \<not> is_api_call e) (trace_of (getEVMTransactionInfo cfg nw cache txHash chain))
       \<and> trace_of (getEVMBlockInfo cfg nw cache b chain)
           = trace_of (block_rpc cfg nw cache (block_tag b) chain)
       \<and> list_all (\<lambda>e. \<not> is_api_call e) (trace_of (getEVMBlockInfo cfg nw cache b chain))"
  unfolding getEVMAddressInfo_def getEVMTransactionInfo_def getEVMBlockInfo_def
    source_selection_rpc_only(1)[OF empty_key_gate[OF assms]]
  by (simp add: address_rpc_only_no_api tx_rpc_no_api block_rpc_no_api)

lemma blank_gate: "\<not> use_rpc_only blank_key_config keyed_ethereum"
  by (simp add: use_rpc_only_def blank_key_config_def example_config_def keyed_ethereum_def
        truthy_str_def requiresKey_opt_def getApiKey_def str_or_def)

lemma source_selection_api_fail_trace:
  assumes "\<not> use_rpc_only cfg chain" and "api_tier = (tr1, Inl e1)"
  shows "trace_of (source_selection cfg chain cache p1 p2 rpc_only api_tier rpc_fallback)
           = tr1 @ trace_of rpc_fallback"
  using assms
  by (cases rpc_fallback) (auto simp: source_selection_def trace_of_def split: sum.splits)

text \<open>
  Claim C8, as stated, fails for a blank key: with the key \<^verbatim>\<open>" "\<close> (one space) configured
  for Ethereum, the first three calls of \<^verbatim>\<open>getEVMAddressInfo\<close> go to the keyed API.
\<close>

theorem blank_key_calls_api:
  "getApiKey blank_key_config (chain_id keyed_ethereum) = '' ''
   \<and> take 3 (trace_of (getEVMAddressInfo blank_key_config
               (net_down (Error ''Invalid API Key'') (Error ''Network Error'')) Map.empty
               ''0xabc'' keyed_ethereum))
      = [ApiGet ''https://api.etherscan.io/api'' ''account'' ''balance'',
         ApiGet ''https://api.etherscan.io/api'' ''account'' ''txlist'',
         ApiGet ''https://api.etherscan.io/api'' ''account'' ''tokentx'']"
proof -
  have k: "getApiKey blank_key_config (chain_id keyed_ethereum) = '' ''"
    by (simp add: blank_key_config_def keyed_ethereum_def getApiKey_def str_or_def)
  have u: "api_url keyed_ethereum = ''https://api.etherscan.io/api''"
    by (simp add: api_url_def keyed_ethereum_def)
  show ?thesis
    unfolding getEVMAddressInfo_def address_api_down
      source_selection_api_fail_trace[OF blank_gate refl]
    using k u by simp
qed

theorem empty_key_skips_api_witness:
  "getApiKey no_key_config (chain_id keyed_ethereum) = []
   \<and> list_all (\<lambda>e. \<not> is_api_call e)
        (trace_of (getEVMAddressInfo no_key_config
               (net_down (Error ''Invalid API Key'') (Error ''Network Error'')) Map.empty
               ''0xabc'' keyed_ethereum))"
proof -
  have k: "getApiKey no_key_config (chain_id keyed_ethereum) = []"
    by (simp add: no_key_config_def keyed_ethereum_def getApiKey_def str_or_def)
  show ?thesis
    using k empty_key_skips_api[OF k] by blast
qed

lemma api_tiers_down:
  "snd (address_api (net_down a r) u k addr c) = Inl a"
  "snd (tx_api (net_down a r) u k h c) = Inl a"
  "snd (block_api (net_down a r) u k t c) = Inl a"
  unfolding address_api_def tx_api_def block_api_def Let_def
  by (simp_all add: net_down_simps)

lemma rpc_tiers_down:
  assumes "FREE_RPC_ENDPOINTS cfg (chain_id c) = Some pool" and "pool \<noteq> []"
  shows "result_of (tx_rpc cfg (net_down a r) cache h c) = Inl r"
    and "result_of (block_rpc cfg (net_down a r) cache t c) = Inl r"
proof -
  obtain tr cache' u where
    g: "getAvailableRpcUrl cfg (probe_fetch (net_down a r)) cache (chain_id c) = (tr, cache', Inr u)"
    using getAvailableRpcUrl_returns[OF assms] by blast
  show "result_of (tx_rpc cfg (net_down a r) cache h c) = Inl r"
    unfolding tx_rpc_def using g by (simp add: net_down_simps result_of_def Let_def)
  show "result_of (block_rpc cfg (net_down a r) cache t c) = Inl r"
    unfolding block_rpc_def using g by (simp add: net_down_simps result_of_def)
qed

theorem both_tiers_fail_witness:
  "\<not> use_rpc_only example_config keyed_ethereum
   \<and> snd (address_api (net_down (Error ''Invalid API Key'') (Error ''Network Error''))
            (api_url keyed_ethereum) (getApiKey example_config (chain_id keyed_ethereum))
            ''0xabc'' keyed_ethereum) = Inl (Error ''Invalid API Key'')
   \<and> result_of (address_rpc_fallback example_config
            (net_down (Error ''Invalid API Key'') (Error ''Network Error'')) Map.empty
            ''0xabc'' keyed_ethereum) = Inl (Error ''Network Error'')
   \<and> result_of (getEVMAddressInfo example_config
            (net_down (Error ''Invalid API Key'') (Error ''Network Error'')) Map.empty
            ''0xabc'' keyed_ethereum)
        = Inl (Error (''Failed to fetch address info: '' @ error_text (Error ''Invalid API Key'')))
   \<and> snd (tx_api (net_down (Error ''Invalid API Key'') (Error ''Network Error''))
            (api_url keyed_ethereum) (getApiKey example_config (chain_id keyed_ethereum))
            ''0xdef'' keyed_ethereum) = Inl (Error ''Invalid API Key'')
   \<and> result_of (tx_rpc example_config
            (net_down (Error ''Invalid API Key'') (Error ''Network Error'')) Map.empty
            ''0xdef'' keyed_ethereum) = Inl (Error ''Network Error'')
   \<and> result_of (getEVMTransactionInfo example_config
            (net_down (Error ''Invalid API Key'') (Error ''Network Error'')) Map.empty
            ''0xdef'' keyed_ethereum)
        = Inl (Error (''Failed to fetch transaction: '' @ error_text (Error ''Invalid API Key'')))
   \<and> snd (block_api (net_down (Error ''Invalid API Key'') (Error ''Network Error''))
            (api_url keyed_ethereum) (getApiKey example_config (chain_id keyed_ethereum))
            (block_tag (ByTag ''latest'')) keyed_ethereum) = Inl (Error ''Invalid API Key'')
   \<and> result_of (block_rpc example_config
            (net_down (Error ''Invalid API Key'') (Error ''Network Error'')) Map.empty
            (block_tag (ByTag ''latest'')) keyed_ethereum) = Inl (Error ''Network Error'')
   \<and> result_of (getEVMBlockInfo example_config
            (net_down (Error ''Invalid API Key'') (Error ''Network Error'')) Map.empty
            (ByTag ''latest'') keyed_ethereum)
        = Inl (Error (''Failed to fetch block: '' @ error_text (Error ''Invalid API Key'')))"
  using both_tiers_fail[OF example_gate,
      of "net_down (Error ''Invalid API Key'') (Error ''Network Error'')"
         "''0xabc''" "Error ''Invalid API Key''" Map.empty "Error ''Network Error''"
         "''0xdef''" "ByTag ''latest''"]
    example_gate api_tiers_down
    address_rpc_fallback_down[OF keyed_ethereum_pool] rpc_tiers_down[OF keyed_ethereum_pool]
  by simp

lemma tx_rpc_status:
  assumes "result_of (tx_rpc cfg nw cache txHash chain) = Inr info"
  shows "\<exists>rpcUrl. result_of (getAvailableRpcUrl cfg (probe_fetch nw) cache (chain_id chain))
                    = Inr rpcUrl
           \<and> ti_status info =
               (case eth_getTransactionReceipt nw rpcUrl txHash of
                  Inl e \<Rightarrow> Pending
                | Inr None \<Rightarrow> Pending
                | Inr (Some rc) \<Rightarrow>
                    if parseInt16o (rc_status rc) = Num 1 then Success else Failed)"
  using assms
  by (cases "getAvailableRpcUrl cfg (probe_fetch nw) cache (chain_id chain)")
     (auto simp: tx_rpc_def result_of_def Let_def tx_info_def status_of_receipt_def
        catch_null_def split: sum.splits option.splits)

lemma tx_api_status:
  assumes "snd (tx_api nw u k txHash chain) = Inr info"
  shows "ti_status info =
           (case api_getTransactionReceipt nw u txHash k of
              Inl e \<Rightarrow> Pending
            | Inr r \<Rightarrow>
                (case pr_result r of
                   None \<Rightarrow> Pending
                 | Some rc \<Rightarrow>
                     if parseInt16o (rc_status rc) = Num 1 then Success else Failed))"
  using assms
  by (auto simp: tx_api_def Let_def tx_info_def status_of_receipt_def catch_null_api_def
        split: sum.splits option.splits)

lemma tx_api_answers:
  "(\<exists>info. snd (tx_api nw u k txHash chain) = Inr info) \<longleftrightarrow>
   (\<exists>r tx. api_getTransactionByHash nw u txHash k = Inr r
             \<and> pr_error r = None \<and> pr_result r = Some tx)"
  by (auto simp: tx_api_def Let_def split: sum.splits option.splits)

lemma source_selection_result_source:
  assumes "result_of (source_selection cfg chain cache p1 p2 rpc_only api_tier rpc_fallback) = Inr v"
  shows "if use_rpc_only cfg chain then result_of rpc_only = Inr v
         else if (\<exists>w. snd api_tier = Inr w) then snd api_tier = Inr v
         else result_of rpc_fallback = Inr v"
  using assms
  by (cases rpc_only; cases api_tier; cases rpc_fallback)
     (auto simp: source_selection_def result_of_def split: sum.splits if_splits)

text \<open>
  Claim C6. Whenever \<^verbatim>\<open>getEVMTransactionInfo\<close> returns a transaction, its status is read off
  the answer of the upstream that delivered the transaction to the receipt call. The
  transaction comes from the scan API when the gate lets the API be asked and the API
  answers the transaction call with a transaction and no error; then the receipt call is the
  one to the API. Otherwise it comes from the RPC endpoint that \<^verbatim>\<open>getAvailableRpcUrl\<close> has
  chosen, and the receipt call is the one to that endpoint. In both cases the status is
  \<^verbatim>\<open>pending\<close> when the receipt call rejects or delivers no receipt, and with a receipt it is
  \<^verbatim>\<open>success\<close> when \<^verbatim>\<open>parseInt(receipt.status, 16)\<close> is 1 and \<^verbatim>\<open>failed\<close> otherwise.
\<close>

theorem tx_status_from_receipt:
  assumes "result_of (getEVMTransactionInfo cfg nw cache txHash chain) = Inr info"
  shows "if \<not> use_rpc_only cfg chain
            \<and> (\<exists>r tx. api_getTransactionByHash nw (api_url chain) txHash
                          (getApiKey cfg (chain_id chain)) = Inr r
                       \<and> pr_error r = None \<and> pr_result r = Some tx)
         then ti_status info =
                (case api_getTransactionReceipt nw (api_url chain) txHash
                        (getApiKey cfg (chain_id chain)) of
                   Inl e \<Rightarrow> Pending
                 | Inr r \<Rightarrow>
                     (case pr_result r of
                        None \<Rightarrow> Pending
                      | Some rc \<Rightarrow>
                          if parseInt16o (rc_status rc) = Num 1 then Success else Failed))
         else (\<exists>rpcUrl. result_of (getAvailableRpcUrl cfg (probe_fetch nw) cache (chain_id chain))
                           = Inr rpcUrl
                 \<and> ti_status info =
                     (case eth_getTransactionReceipt nw rpcUrl txHash of
                        Inl e \<Rightarrow> Pending
                      | Inr None \<Rightarrow> Pending
                      | Inr (Some rc) \<Rightarrow>
                          if parseInt16o (rc_status rc) = Num 1 then Success else Failed))"
proof -
  let ?api = "tx_api nw (api_url chain) (getApiKey cfg (chain_id chain)) txHash chain"
  let ?answers = "\<exists>r tx. api_getTransactionByHash nw (api_url chain) txHash
                             (getApiKey cfg (chain_id chain)) = Inr r
                          \<and> pr_error r = None \<and> pr_result r = Some tx"
  have src: "if use_rpc_only cfg chain then result_of (tx_rpc cfg nw cache txHash chain) = Inr info
             else if (\<exists>w. snd ?api = Inr w) then snd ?api = Inr info
             else result_of (tx_rpc cfg nw cache txHash chain) = Inr info"
    using source_selection_result_source[OF assms[unfolded getEVMTransactionInfo_def]] .
  have ans: "(\<exists>w. snd ?api = Inr w) \<longleftrightarrow> ?answers"
    by (rule tx_api_answers)
  show ?thesis
  proof (cases "\<not> use_rpc_only cfg chain \<and> ?answers")
    case True
    then have c: "snd ?api = Inr info"
      using src ans by (simp split: if_splits)
    show ?thesis
      by (subst if_P, rule True, rule tx_api_status[OF c])
  next
    case False
    then have c: "result_of (tx_rpc cfg nw cache txHash chain) = Inr info"
      using src ans by (auto split: if_splits)
    show ?thesis
      by (subst if_not_P, rule False, rule tx_rpc_status[OF c])
  qed
qed

lemma net_with_tx_simps:
  "probe_fetch (net_with_tx reply) = (\<lambda>i u. Body True)"
  "eth_getTransactionByHash (net_with_tx reply) = (\<lambda>u h. Inr (Some pending_tx))"
  "eth_getTransactionReceipt (net_with_tx reply) = (\<lambda>u h. reply)"
  "eth_getBlockByNumber (net_with_tx reply) = (\<lambda>u t f. Inl (Error ''Network Error''))"
  "api_getTransactionReceipt (net_with_tx reply) = (\<lambda>u h k. Inl (Error ''Invalid API Key''))"
  "now (net_with_tx reply) = Num 1700000000000"
  by (simp_all add: net_with_tx_def net_down_def)

lemma net_api_tx_simps:
  "api_getTransactionByHash (net_api_tx reply)
     = (\<lambda>u h k. Inr \<lparr>pr_error = None, pr_result = Some pending_tx\<rparr>)"
  "api_getTransactionReceipt (net_api_tx reply) = (\<lambda>u h k. reply)"
  "api_blockNumber (net_api_tx reply) = (\<lambda>u k. Inl (Error ''Invalid API Key''))"
  "api_getBlockByNumber (net_api_tx reply) = (\<lambda>u t k. Inl (Error ''Invalid API Key''))"
  "now (net_api_tx reply) = Num 1700000000000"
  by (simp_all add: net_api_tx_def net_down_def)

lemma no_key_gate: "use_rpc_only no_key_config keyed_ethereum"
  by (simp add: use_rpc_only_def no_key_config_def getApiKey_def str_or_def)

lemma no_key_pool:
  "FREE_RPC_ENDPOINTS no_key_config (chain_id keyed_ethereum) = Some ethereum_pool"
  "ethereum_pool \<noteq> []"
  by (simp_all add: no_key_config_def keyed_ethereum_def example_config_def ethereum_pool_def)

lemma tx_rpc_with_tx:
  "\<exists>info. result_of (tx_rpc no_key_config (net_with_tx reply) Map.empty ''0xdef'' keyed_ethereum)
     = Inr info"
proof -
  obtain tr cache' u where
    g: "getAvailableRpcUrl no_key_config (probe_fetch (net_with_tx reply)) Map.empty
          (chain_id keyed_ethereum) = (tr, cache', Inr u)"
    using getAvailableRpcUrl_returns[OF no_key_pool] by blast
  show ?thesis
    unfolding tx_rpc_def using g
    by (simp add: net_with_tx_simps result_of_def Let_def)
qed

lemma getEVMTransactionInfo_with_tx:
  "\<exists>info. result_of (getEVMTransactionInfo no_key_config (net_with_tx reply) Map.empty ''0xdef''
                       keyed_ethereum) = Inr info"
proof -
  obtain info where
    "result_of (tx_rpc no_key_config (net_with_tx reply) Map.empty ''0xdef'' keyed_ethereum)
       = Inr info"
    using tx_rpc_with_tx by blast
  then show ?thesis
    unfolding getEVMTransactionInfo_def source_selection_rpc_only(3)[OF no_key_gate]
    by simp
qed

lemma getEVMTransactionInfo_api_tx:
  "\<exists>info. result_of (getEVMTransactionInfo example_config (net_api_tx reply) Map.empty ''0xdef''
                       keyed_ethereum) = Inr info"
proof -
  obtain tr info where
    t: "tx_api (net_api_tx reply) (api_url keyed_ethereum)
        (getApiKey example_config (chain_id keyed_ethereum)) ''0xdef'' keyed_ethereum
      = (tr, Inr info)"
    by (simp add: tx_api_def net_api_tx_simps Let_def)
  show ?thesis
    unfolding getEVMTransactionInfo_def source_selection_def t
    using example_gate by (simp add: result_of_def)
qed

lemma parse_status_1: "parseInt16o (rc_status mined_receipt) = Num 1"
  by (simp add: mined_receipt_def parseInt16o_def parseInt16_def strip_sign_def startsWith_def
        is_space_def is_hex_def in_range_def hex_value_def hex_digit_val_def signed_def)

lemma parse_status_0: "parseInt16o (rc_status failed_receipt) = Num 0"
  by (simp add: failed_receipt_def parseInt16o_def parseInt16_def strip_sign_def startsWith_def
        is_space_def is_hex_def in_range_def hex_value_def hex_digit_val_def signed_def)

theorem tx_status_from_receipt_witness:
  "map_sum id ti_status
     (result_of (getEVMTransactionInfo no_key_config (net_with_tx (Inr None)) Map.empty
                   ''0xdef'' keyed_ethereum)) = Inr Pending
   \<and> map_sum id ti_status
     (result_of (getEVMTransactionInfo no_key_config (net_with_tx (Inl (Error ''timeout'')))
                   Map.empty ''0xdef'' keyed_ethereum)) = Inr Pending
   \<and> map_sum id ti_status
     (result_of (getEVMTransactionInfo no_key_config (net_with_tx (Inr (Some mined_receipt)))
                   Map.empty ''0xdef'' keyed_ethereum)) = Inr Success
   \<and> map_sum id ti_status
     (result_of (getEVMTransactionInfo no_key_config (net_with_tx (Inr (Some failed_receipt)))
                   Map.empty ''0xdef'' keyed_ethereum)) = Inr Failed
   \<and> map_sum id ti_status
     (result_of (getEVMTransactionInfo example_config
                   (net_api_tx (Inr \<lparr>pr_error = None, pr_result = None\<rparr>))
                   Map.empty ''0xdef'' keyed_ethereum)) = Inr Pending
   \<and> map_sum id ti_status
     (result_of (getEVMTransactionInfo example_config
                   (net_api_tx (Inl (Error ''timeout'')))
                   Map.empty ''0xdef'' keyed_ethereum)) = Inr Pending
   \<and> map_sum id ti_status
     (result_of (getEVMTransactionInfo example_config
                   (net_api_tx (Inr \<lparr>pr_error = None, pr_result = Some mined_receipt\<rparr>))
                   Map.empty ''0xdef'' keyed_ethereum)) = Inr Success
   \<and> map_sum id ti_status
     (result_of (getEVMTransactionInfo example_config
                   (net_api_tx (Inr \<lparr>pr_error = None, pr_result = Some failed_receipt\<rparr>))
                   Map.empty ''0xdef'' keyed_ethereum)) = Inr Failed"
proof -
  have rpc: "map_sum id ti_status
      (result_of (getEVMTransactionInfo no_key_config (net_with_tx reply) Map.empty
                    ''0xdef'' keyed_ethereum))
      = Inr (case reply of
               Inl e \<Rightarrow> Pending
             | Inr None \<Rightarrow> Pending
             | Inr (Some rc) \<Rightarrow>
                 if parseInt16o (rc_status rc) = Num 1 then Success else Failed)" for reply
  proof -
    obtain info where
      i: "result_of (getEVMTransactionInfo no_key_config (net_with_tx reply) Map.empty
                       ''0xdef'' keyed_ethereum) = Inr info"
      using getEVMTransactionInfo_with_tx by blast
    show ?thesis
      using tx_status_from_receipt[OF i] no_key_gate
      by (auto simp: i net_with_tx_simps)
  qed
  have api: "map_sum id ti_status
      (result_of (getEVMTransactionInfo example_config (net_api_tx reply) Map.empty
                    ''0xdef'' keyed_ethereum))
      = Inr (case reply of
               Inl e \<Rightarrow> Pending
             | Inr r \<Rightarrow>
                 (case pr_result r of
                    None \<Rightarrow> Pending
                  | Some rc \<Rightarrow>
                      if parseInt16o (rc_status rc) = Num 1 then Success else Failed))" for reply
  proof -
    obtain info where
      i: "result_of (getEVMTransactionInfo example_config (net_api_tx reply) Map.empty
                       ''0xdef'' keyed_ethereum) = Inr info"
      using getEVMTransactionInfo_api_tx by blast
    show ?thesis
      using tx_status_from_receipt[OF i] example_gate
      by (simp add: i net_api_tx_simps)
  qed
  show ?thesis
    by (simp add: rpc api parse_status_1 parse_status_0)
qed








section \<open>Evaluations of the aggregator and of the large-transaction list\<close>

lemma same_block_timestamps:
  "js_sort (\<lambda>a b. js_sub b a)
     (filter truthy_num (present (map s_timestamp same_block_sample)))
   = [Num 1700000000, Num 1700000000]"
  by (simp add: same_block_sample_def present_def truthy_num_def js_sort_def js_sub_def js_gt_def)

text \<open>
  Claim C1 against the code: on a sample of two transactions of the same block (equal
  time stamps, as every sample taken from one EVM block has), the time spread is 0,
  \<^verbatim>\<open>timestamps.length / (timeDiff / 60)\<close> is \<^verbatim>\<open>2 / 0\<close>, and the snapshot's
  \<^verbatim>\<open>blockProductionRate\<close> is \<^verbatim>\<open>Infinity\<close>: the division is guarded by
  \<^verbatim>\<open>timestamps.length > 1\<close> only.
\<close>

theorem analytics_rate_same_block:
  "blockProductionRate (getAnalyticsData keyed_ethereum (Inr (Some same_block_sample))) = PosInf"
proof -
  have len: "length same_block_sample \<noteq> 0" by (simp add: same_block_sample_def)
  have "blockProductionRate (getAnalyticsData keyed_ethereum (Inr (Some same_block_sample)))
          = js_div (Num 2) (js_div (js_sub (Num 1700000000) (Num 1700000000)) (Num 60))"
    using len by (simp add: getAnalyticsData_def Let_def same_block_timestamps)
  then show ?thesis by (simp add: js_sub_def inf_signed_def)
qed

lemma btc_values:
  "map btc_value mempool_two = [Num 1, Num 5]"
  by (simp add: mempool_two_def btc_value_def num_or_def truthy_num_def Let_def)

text \<open>
  Claim C10 against the code: on the Bitcoin branch, with two mempool transactions of 1 and 5
  BTC in that order, a threshold of 0.5 and a limit of 20, the list returned has the values
  1, 5: it is in mempool order, not in non-increasing order of value. The Bitcoin branch
  filters and slices and never sorts; the three other branches sort.
\<close>

theorem large_bitcoin_unsorted:
  "map_sum id (map lt_value)
     (result_of (getLargeTransactions example_config
                   (net_down (Error ''Invalid API Key'') (Error ''Network Error''))
                   (alt_mempool mempool_two) Map.empty btc_chain (Num 0.5) 20))
   = Inr [Num 1, Num 5]"
proof -
  have v: "btc_value (mempool_two ! 0) = Num 1" "btc_value (mempool_two ! 1) = Num 5"
    by (simp_all add: mempool_two_def btc_value_def num_or_def truthy_num_def Let_def)
  have f: "filter (\<lambda>tx. js_ge (btc_value tx) (Num 0.5)) mempool_two = mempool_two"
    using v by (simp add: mempool_two_def js_ge_def)
  have m: "map lt_value (map (btc_large n c) mempool_two) = [Num 1, Num 5]" for n c
    using btc_values by (simp add: btc_large_def comp_def)
  have l: "length mempool_two = 2" by (simp add: mempool_two_def)
  show ?thesis
    unfolding getLargeTransactions_def large_bitcoin_def Let_def
    using f m[unfolded map_map] l
    by (simp add: btc_chain_def alt_mempool_def result_of_def)
qed

section \<open>Bounds and order of the large-transaction list\<close>

lemma js_gt_sub_iff:
  "a \<noteq> NaN \<Longrightarrow> b \<noteq> NaN \<Longrightarrow> js_gt (js_sub b a) (Num 0) \<longleftrightarrow> js_lt a b"
  by (cases a; cases b; simp add: js_gt_def js_sub_def)

lemma js_ge_trans: "js_ge a b \<Longrightarrow> js_ge b c \<Longrightarrow> js_ge a c"
  by (cases a; cases b; cases c; simp add: js_ge_def)

lemma js_lt_imp_ge: "js_lt a b \<Longrightarrow> js_ge b a"
  by (cases a; cases b; simp add: js_ge_def)

lemma js_ge_not_NaN: "js_ge a b \<Longrightarrow> a \<noteq> NaN"
  by (simp add: js_ge_def)

lemma set_js_insort: "set (js_insort cmp x ys) = insert x (set ys)"
  by (induction ys) auto

lemma set_js_sort: "set (js_sort cmp xs) = set xs"
  by (induction xs) (simp_all add: js_sort_def set_js_insort)

lemma length_js_insort: "length (js_insort cmp x ys) = Suc (length ys)"
  by (induction ys) auto

lemma length_js_sort: "length (js_sort cmp xs) = length xs"
  by (induction xs) (simp_all add: js_sort_def length_js_insort)

lemma sorted_js_insort:
  assumes "v x \<noteq> NaN" and "\<forall>y \<in> set ys. v y \<noteq> NaN"
    and "sorted_wrt (\<lambda>a b. js_ge (v a) (v b)) ys"
  shows "sorted_wrt (\<lambda>a b. js_ge (v a) (v b)) (js_insort (\<lambda>a b. js_sub (v b) (v a)) x ys)"
  using assms
proof (induction ys)
  case Nil
  then show ?case by simp
next
  case (Cons y ys)
  have ny: "v y \<noteq> NaN" using Cons.prems(2) by simp
  show ?case
  proof (cases "js_lt (v x) (v y)")
    case True
    then have ins: "js_insort (\<lambda>a b. js_sub (v b) (v a)) x (y # ys)
                     = y # js_insort (\<lambda>a b. js_sub (v b) (v a)) x ys"
      using js_gt_sub_iff[OF Cons.prems(1) ny] by simp
    have ih: "sorted_wrt (\<lambda>a b. js_ge (v a) (v b)) (js_insort (\<lambda>a b. js_sub (v b) (v a)) x ys)"
      using Cons by simp
    have "\<forall>z \<in> set (js_insort (\<lambda>a b. js_sub (v b) (v a)) x ys). js_ge (v y) (v z)"
      using Cons.prems(3) True js_lt_imp_ge by (auto simp: set_js_insort)
    then show ?thesis using ih ins by simp
  next
    case False
    then have ins: "js_insort (\<lambda>a b. js_sub (v b) (v a)) x (y # ys) = x # y # ys"
      using js_gt_sub_iff[OF Cons.prems(1) ny] by simp
    have xy: "js_ge (v x) (v y)"
      using False Cons.prems(1) ny by (simp add: js_ge_def)
    have "\<forall>z \<in> set ys. js_ge (v x) (v z)"
      using Cons.prems(3) xy js_ge_trans by auto
    then show ?thesis using ins xy Cons.prems(3) by simp
  qed
qed

lemma sorted_js_sort:
  assumes "\<forall>y \<in> set xs. v y \<noteq> NaN"
  shows "sorted_wrt (\<lambda>a b. js_ge (v a) (v b)) (js_sort (\<lambda>a b. js_sub (v b) (v a)) xs)"
  using assms
proof (induction xs)
  case Nil
  then show ?case by (simp add: js_sort_def)
next
  case (Cons x xs)
  have "sorted_wrt (\<lambda>a b. js_ge (v a) (v b))
          (js_insort (\<lambda>a b. js_sub (v b) (v a)) x (js_sort (\<lambda>a b. js_sub (v b) (v a)) xs))"
    using Cons by (intro sorted_js_insort) (simp_all add: set_js_sort)
  then show ?case by (simp add: js_sort_def)
qed

text \<open>What the branches that sort return.\<close>
lemma top_by_value_props:
  assumes "\<forall>t \<in> set all. js_ge (lt_value t) minValue"
  shows "length (top_by_value limit all) \<le> limit"
    and "\<forall>t \<in> set (top_by_value limit all). js_ge (lt_value t) minValue"
    and "sorted_wrt (\<lambda>a b. js_ge (lt_value a) (lt_value b)) (top_by_value limit all)"
proof -
  show "length (top_by_value limit all) \<le> limit"
    by (simp add: top_by_value_def)
  show "\<forall>t \<in> set (top_by_value limit all). js_ge (lt_value t) minValue"
    using assms by (auto simp: top_by_value_def set_js_sort dest!: in_set_takeD)
  have "\<forall>t \<in> set all. lt_value t \<noteq> NaN"
    using assms js_ge_not_NaN by blast
  then show "sorted_wrt (\<lambda>a b. js_ge (lt_value a) (lt_value b)) (top_by_value limit all)"
    unfolding top_by_value_def by (intro sorted_wrt_take sorted_js_sort)
qed

lemma evm_large_of_block_ge:
  "\<forall>t \<in> set (evm_large_of_block minValue chain result). js_ge (lt_value t) minValue"
  by (auto simp: evm_large_of_block_def split: option.splits)

lemma sol_large_of_block_ge:
  "\<forall>t \<in> set (sol_large_of_block n minValue chain slot result). js_ge (lt_value t) minValue"
  by (auto simp: sol_large_of_block_def split: option.splits)

lemma concat_ge:
  assumes "\<And>i. \<forall>t \<in> set (f i). js_ge (lt_value t) minValue"
  shows "\<forall>t \<in> set (concat (map f is)). js_ge (lt_value t) minValue"
  using assms by auto

lemma large_api_props:
  assumes "snd (large_api nw u k chain minValue limit) = Inr txs"
  shows "length txs \<le> limit \<and> (\<forall>t \<in> set txs. js_ge (lt_value t) minValue)
         \<and> sorted_wrt (\<lambda>a b. js_ge (lt_value a) (lt_value b)) txs"
proof (cases "api_blockNumber nw u k")
  case (Inl e)
  then show ?thesis using assms by (simp add: large_api_def)
next
  case (Inr r)
  define all where "all = concat (map (\<lambda>i. evm_large_of_block minValue chain
        (catch_null_api (api_getBlockByNumber nw u
           (Some (''0x'' @ toString16 (js_sub (parseInt16o (pr_result r)) (Num (real i))))) k)))
        [0..<5])"
  have ge: "\<forall>t \<in> set all. js_ge (lt_value t) minValue"
    unfolding all_def by (rule concat_ge) (rule evm_large_of_block_ge)
  have "txs = top_by_value limit all"
    using assms Inr by (simp add: large_api_def Let_def all_def)
  then show ?thesis using top_by_value_props[OF ge] by simp
qed

lemma large_rpc_props:
  assumes "result_of (large_rpc cfg nw alt cache chain minValue limit) = Inr txs"
  shows "length txs \<le> limit \<and> (\<forall>t \<in> set txs. js_ge (lt_value t) minValue)
         \<and> sorted_wrt (\<lambda>a b. js_ge (lt_value a) (lt_value b)) txs"
proof -
  obtain tr cache' r where g:
    "getAvailableRpcUrl cfg (probe_fetch nw) cache (chain_id chain) = (tr, cache', r)"
    by (cases "getAvailableRpcUrl cfg (probe_fetch nw) cache (chain_id chain)")
  show ?thesis
  proof (cases r)
    case (Inl e)
    then show ?thesis using assms g by (simp add: large_rpc_def result_of_def)
  next
    case (Inr rpcUrl)
    show ?thesis
    proof (cases "chain_id chain = ''solana''")
      case True
      define all where "all = (\<lambda>currentSlot. concat (map (\<lambda>i.
           sol_large_of_block (now nw) minValue chain (js_sub (to_num currentSlot) (Num (real i)))
             (catch_null (sol_getBlock alt rpcUrl (js_sub (to_num currentSlot) (Num (real i))))))
           [0..<5]))"
      have ge: "\<forall>t \<in> set (all cs). js_ge (lt_value t) minValue" for cs
        unfolding all_def by (rule concat_ge) (rule sol_large_of_block_ge)
      have "txs = [] \<or> (\<exists>cs. txs = top_by_value limit (all cs))"
        using assms g Inr True
        by (auto simp: large_rpc_def result_of_def Let_def all_def split: sum.splits if_splits)
      then show ?thesis using top_by_value_props[OF ge] by auto
    next
      case False
      define all where "all = (\<lambda>result. concat (map (\<lambda>i. evm_large_of_block minValue chain
           (catch_null (eth_getBlockByNumber nw rpcUrl
              (Some (''0x'' @ toString16 (js_sub (parseInt16o result) (Num (real i))))) True)))
           [0..<3]))"
      have ge: "\<forall>t \<in> set (all res). js_ge (lt_value t) minValue" for res
        unfolding all_def by (rule concat_ge) (rule evm_large_of_block_ge)
      have "\<exists>res. txs = top_by_value limit (all res)"
        using assms g Inr False
        by (auto simp: large_rpc_def result_of_def Let_def all_def split: sum.splits)
      then show ?thesis using top_by_value_props[OF ge] by auto
    qed
  qed
qed

lemma large_bitcoin_props:
  assumes "snd (large_bitcoin nw alt chain minValue limit) = Inr txs"
  shows "length txs \<le> limit \<and> (\<forall>t \<in> set txs. js_ge (lt_value t) minValue)"
  using assms
  by (auto simp: large_bitcoin_def Let_def btc_large_def split: sum.splits dest!: in_set_takeD)

lemma large_via_rpc_result:
  "result_of (large_via_rpc tr cfg nw alt cache chain minValue limit) = Inr txs
   \<Longrightarrow> result_of (large_rpc cfg nw alt cache chain minValue limit) = Inr txs"
  by (cases "large_rpc cfg nw alt cache chain minValue limit")
     (auto simp: large_via_rpc_def result_of_def split: sum.splits)

text \<open>On every branch: at most \<open>limit\<close> entries, each with a value that is at least
  \<open>minValue\<close>.\<close>
lemma getLargeTransactions_bounds:
  assumes "result_of (getLargeTransactions cfg nw alt cache chain minValue limit) = Inr txs"
  shows "length txs \<le> limit \<and> (\<forall>t \<in> set txs. js_ge (lt_value t) minValue)"
proof (cases "chain_id chain = ''bitcoin''")
  case True
  then have "snd (large_bitcoin nw alt chain minValue limit) = Inr txs"
    using assms
    by (cases "large_bitcoin nw alt chain minValue limit")
       (simp add: getLargeTransactions_def result_of_def)
  then show ?thesis by (rule large_bitcoin_props)
next
  case False
  have "snd (large_api nw (api_url chain) (getApiKey cfg (chain_id chain)) chain minValue limit)
          = Inr txs
        \<or> result_of (large_rpc cfg nw alt cache chain minValue limit) = Inr txs"
    using assms False large_via_rpc_result
    by (cases "large_api nw (api_url chain) (getApiKey cfg (chain_id chain)) chain minValue limit")
       (auto simp: getLargeTransactions_def result_of_def split: if_splits sum.splits)
  then show ?thesis using large_api_props large_rpc_props by blast
qed

text \<open>On every branch but Bitcoin's: in non-increasing order of value.\<close>
lemma getLargeTransactions_sorted:
  assumes "result_of (getLargeTransactions cfg nw alt cache chain minValue limit) = Inr txs"
    and "chain_id chain \<noteq> ''bitcoin''"
  shows "sorted_wrt (\<lambda>a b. js_ge (lt_value a) (lt_value b)) txs"
proof -
  have "snd (large_api nw (api_url chain) (getApiKey cfg (chain_id chain)) chain minValue limit)
          = Inr txs
        \<or> result_of (large_rpc cfg nw alt cache chain minValue limit) = Inr txs"
    using assms large_via_rpc_result
    by (cases "large_api nw (api_url chain) (getApiKey cfg (chain_id chain)) chain minValue limit")
       (auto simp: getLargeTransactions_def result_of_def split: if_splits sum.splits)
  then show ?thesis using large_api_props large_rpc_props by blast
qed

section \<open>The shipped tables\<close>

lemma shipped_pools_nonempty:
  "list_all (\<lambda>(k, pool). pool \<noteq> []) FREE_RPC_ENDPOINTS_table"
  by (simp add: FREE_RPC_ENDPOINTS_table_def)

lemma shipped_pool_nonempty:
  assumes "FREE_RPC_ENDPOINTS (shipped_config keys) chainId = Some pool"
  shows "pool \<noteq> []"
proof -
  have "(chainId, pool) \<in> set FREE_RPC_ENDPOINTS_table"
    using assms by (simp add: shipped_config_def map_of_SomeD)
  then show ?thesis
    using shipped_pools_nonempty by (auto simp: list_all_iff)
qed

lemma example_config_shipped:
  "FREE_RPC_ENDPOINTS example_config ''ethereum''
     = FREE_RPC_ENDPOINTS (shipped_config keys) ''ethereum''"
  "FREE_RPC_ENDPOINTS example_config ''solana''
     = FREE_RPC_ENDPOINTS (shipped_config keys) ''solana''"
  "FREE_API_ENDPOINTS example_config ''ethereum''
     = FREE_API_ENDPOINTS (shipped_config keys) ''ethereum''"
  by (simp_all add: example_config_def shipped_config_def FREE_RPC_ENDPOINTS_table_def
        FREE_API_ENDPOINTS_table_def)

section \<open>What the aggregator keeps finite, and where it does not\<close>

lemma foldl_js_add_Num:
  assumes "\<forall>x \<in> set xs. \<exists>r. f x = Num r"
  shows "\<exists>s. foldl (\<lambda>sum x. js_add sum (f x)) (Num a) xs = Num s"
  using assms
proof (induction xs arbitrary: a)
  case Nil
  then show ?case by simp
next
  case (Cons x xs)
  then obtain r where r: "f x = Num r" by auto
  show ?case using Cons.IH[of "a + r"] Cons.prems r by simp
qed

lemma foldl_js_add_nonneg:
  assumes "\<forall>x \<in> set xs. \<exists>r \<ge> 0. f x = Num r" and "0 \<le> a"
  shows "\<exists>s \<ge> 0. foldl (\<lambda>sum x. js_add sum (f x)) (Num a) xs = Num s"
  using assms
proof (induction xs arbitrary: a)
  case Nil
  then show ?case by simp
next
  case (Cons x xs)
  then obtain r where r: "f x = Num r" "0 \<le> r" by auto
  show ?case using Cons.IH[of "a + r"] Cons.prems r by simp
qed

lemma num_or_Num:
  "no_infinity x \<Longrightarrow> \<exists>r. num_or x (Num 0) = Num r"
  by (cases x; cases "the x") (auto simp: num_or_def no_infinity_def truthy_num_def)

lemma gas_price_Num:
  assumes "finite_sample txs"
    and "p \<in> set (filter (\<lambda>price. truthy_num price \<and> js_gt price (Num 0))
                     (present (map s_gasPrice txs)))"
  shows "\<exists>r > 0. p = Num r"
proof -
  obtain tx where "tx \<in> set txs" "s_gasPrice tx = Some p"
    using assms(2) by (auto simp: present_def split: option.splits)
  then have "p \<noteq> PosInf" "p \<noteq> NegInf"
    using assms(1) by (auto simp: finite_sample_def list_all_iff no_infinity_def)
  moreover have "js_gt p (Num 0)" using assms(2) by simp
  ultimately show ?thesis by (cases p) (auto simp: js_gt_def)
qed

lemma js_max_Num: "js_max (Num a) (Num b) = Num (max a b)"
  by (simp add: js_max_def max_def)

text \<open>For a sample without infinities the total volume, the average gas price and the
  network health are finite numbers. Finite numbers are reals here, so a sum of finite doubles that overflows to an
  infinity is not covered.\<close>
lemma analytics_fields_finite:
  assumes "finite_sample txs"
  shows "isFinite (totalVolume (getAnalyticsData chain (Inr (Some txs))))
       \<and> isFinite (averageGasPrice (getAnalyticsData chain (Inr (Some txs))))
       \<and> isFinite (networkHealth (getAnalyticsData chain (Inr (Some txs))))"
proof (cases "length txs = 0")
  case True
  then show ?thesis by (simp add: getAnalyticsData_def zero_analytics_def)
next
  case False
  define gp where "gp = filter (\<lambda>price. truthy_num price \<and> js_gt price (Num 0))
                          (present (map s_gasPrice txs))"
  define avg where "avg = (if length gp > 0
       then js_div (foldl (\<lambda>sum price. js_add sum price) (Num 0) gp) (Num (real (length gp)))
       else Num 0)"
  define std where "std = (if length gp > 1
       then js_sqrt (js_div
              (foldl (\<lambda>sum price. js_add sum (js_mul (js_sub price avg) (js_sub price avg)))
                 (Num 0) gp)
              (Num (real (length gp))))
       else Num 0)"
  define stab where "stab = (if js_gt avg (Num 0)
       then js_max (Num 0) (js_sub (Num 1) (js_div std avg)) else Num 0)"
  define sr where "sr = js_div (Num (real (length (filter (\<lambda>tx. s_status tx \<noteq> Some ''failed'') txs))))
                          (Num (real (length txs)))"
  define tvol where "tvol = foldl (\<lambda>sum tx. js_add sum (num_or (s_value tx) (Num 0))) (Num 0) txs"
  have fields:
    "totalVolume (getAnalyticsData chain (Inr (Some txs))) = tvol"
    "averageGasPrice (getAnalyticsData chain (Inr (Some txs))) = avg"
    "networkHealth (getAnalyticsData chain (Inr (Some txs)))
       = js_mul (js_add (js_mul sr (Num 0.7)) (js_mul stab (Num 0.3))) (Num 100)"
    unfolding getAnalyticsData_def Let_def sr_def stab_def std_def avg_def gp_def tvol_def
    using False by simp_all
  have gpNum: "\<forall>p \<in> set gp. \<exists>r > 0. p = Num r"
    unfolding gp_def using gas_price_Num[OF assms] by blast
  have "\<forall>tx \<in> set txs. \<exists>r. num_or (s_value tx) (Num 0) = Num r"
    using assms num_or_Num by (auto simp: finite_sample_def list_all_iff)
  then obtain tv where tv: "tvol = Num tv"
    unfolding tvol_def
    using foldl_js_add_Num[of txs "\<lambda>tx. num_or (s_value tx) (Num 0)" 0] by blast
  have "\<forall>p \<in> set gp. \<exists>r \<ge> 0. p = Num r"
    using gpNum by (meson less_imp_le)
  then obtain sg where sg: "foldl js_add (Num 0) gp = Num sg" and sg0: "0 \<le> sg"
    using foldl_js_add_nonneg[of gp "\<lambda>p. p" 0] by auto
  obtain a where a: "avg = Num a" and a0: "0 \<le> a"
    unfolding avg_def using sg0 sg by (cases "length gp > 0") auto
  have "\<forall>p \<in> set gp. \<exists>r \<ge> 0. js_mul (js_sub p avg) (js_sub p avg) = Num r"
  proof
    fix p assume "p \<in> set gp"
    then obtain r where "p = Num r" using gpNum by blast
    then have "js_mul (js_sub p avg) (js_sub p avg) = Num ((r - a) * (r - a))"
      by (simp add: a js_sub_def)
    then show "\<exists>r \<ge> 0. js_mul (js_sub p avg) (js_sub p avg) = Num r" by simp
  qed
  then obtain q where
    q: "foldl (\<lambda>sum price. js_add sum (js_mul (js_sub price avg) (js_sub price avg))) (Num 0) gp
          = Num q" and q0: "0 \<le> q"
    using foldl_js_add_nonneg[of gp "\<lambda>p. js_mul (js_sub p avg) (js_sub p avg)" 0] by auto
  have "\<exists>sd. std = Num sd"
  proof (cases "length gp > 1")
    case True
    then have "real (length gp) \<noteq> 0" by auto
    moreover have "\<not> q / real (length gp) < 0"
      using q0 by (simp add: not_less)
    ultimately show ?thesis using True by (simp add: std_def q)
  next
    case False
    then show ?thesis by (simp add: std_def)
  qed
  then obtain sd where sd: "std = Num sd" by blast
  obtain st where st: "stab = Num st"
    unfolding stab_def a sd by (cases "0 < a") (auto simp: js_gt_def js_sub_def js_max_Num)
  obtain srv where srv: "sr = Num srv"
    unfolding sr_def using False by simp
  show ?thesis
    unfolding fields by (simp add: tv a st srv)
qed

text \<open>Every sample whose truthy time stamps are two or more and all equal (the sample of
  one EVM block) gets an infinite rate.\<close>
lemma js_sort_replicate:
  "js_sort (\<lambda>a b. js_sub b a) (replicate n (Num t)) = replicate n (Num t)"
proof (induction n)
  case 0
  then show ?case by (simp add: js_sort_def)
next
  case (Suc n)
  have "js_insort (\<lambda>a b. js_sub b a) (Num t) (replicate n (Num t)) = Num t # replicate n (Num t)"
    by (cases n) (simp_all add: js_sub_def js_gt_def)
  then show ?case using Suc by (simp add: js_sort_def)
qed

lemma analytics_rate_equal_timestamps:
  assumes "filter truthy_num (present (map s_timestamp txs)) = replicate n (Num t)"
    and "2 \<le> n"
  shows "blockProductionRate (getAnalyticsData chain (Inr (Some txs))) = PosInf"
proof -
  have ne: "length txs \<noteq> 0"
    using assms by (cases txs) (auto simp: present_def)
  have last: "replicate n (Num t) ! (n - Suc 0) = Num t" "replicate n (Num t) ! 0 = Num t"
    using assms(2) by simp_all
  have "blockProductionRate (getAnalyticsData chain (Inr (Some txs)))
          = js_div (Num (real n)) (js_div (js_sub (Num t) (Num t)) (Num 60))"
    using ne assms(2) last
    by (simp add: getAnalyticsData_def Let_def assms(1) js_sort_replicate)
  then show ?thesis using assms(2) by (simp add: js_sub_def inf_signed_def)
qed

end
